theory Spec2Isabelle
  imports Complex_Main "HOL-Library.AList" "HOL-Library.Sublist"
begin

section \<open>Python values\<close>

text \<open>
  A Python \<^verbatim>\<open>str\<close> is a sequence of Unicode code points and \<^verbatim>\<open>len\<close> counts
  code points, so a string is a list of code point numbers. The configuration tables
  hold Spanish, French, German and Devanagari words; they are written with the code
  points of their letters. \<open>u\<close> turns an ASCII literal into such a string.
  Python's \<^verbatim>\<open>float\<close> is modelled by \<open>real\<close>.
\<close>

type_synonym pystr = "nat list"

definition u :: "string \<Rightarrow> pystr" where
  "u s = map of_char s"

text \<open>
  \<^verbatim>\<open>str.isspace\<close> of one character. \<^verbatim>\<open>str.strip()\<close> and the regular
  expression class \<^verbatim>\<open>\s\<close> of a \<^verbatim>\<open>str\<close> pattern use the same set of
  code points.
\<close>

definition isspace :: "nat \<Rightarrow> bool" where
  "isspace c =
     ((9 \<le> c \<and> c \<le> 13) \<or> (28 \<le> c \<and> c \<le> 32) \<or> c = 133 \<or> c = 160 \<or> c = 5760 \<or>
      (8192 \<le> c \<and> c \<le> 8202) \<or> c = 8232 \<or> c = 8233 \<or> c = 8239 \<or> c = 8287 \<or>
      c = 12288)"

definition strip :: "pystr \<Rightarrow> pystr" where
  "strip s = rev (dropWhile isspace (rev (dropWhile isspace s)))"

text \<open>\<^verbatim>\<open>k in s\<close> for strings: \<open>k\<close> occurs in \<open>s\<close> as a contiguous run.\<close>

fun starts_with :: "pystr \<Rightarrow> pystr \<Rightarrow> bool" where
  "starts_with s [] = True"
| "starts_with [] (k # ks) = False"
| "starts_with (c # cs) (k # ks) = (if c = k then starts_with cs ks else False)"

fun str_in :: "pystr \<Rightarrow> pystr \<Rightarrow> bool" where
  "str_in k [] = (k = [])"
| "str_in k (c # cs) = (if starts_with (c # cs) k then True else str_in k cs)"

text \<open>\<^verbatim>\<open>sep.join(xs)\<close>.\<close>

fun join :: "pystr \<Rightarrow> pystr list \<Rightarrow> pystr" where
  "join sep [] = []"
| "join sep [x] = x"
| "join sep (x # y # ys) = x @ sep @ join sep (y # ys)"

text \<open>
  \<^verbatim>\<open>str.lower()\<close> of a character below 256: the capital letters of ASCII and of
  Latin-1 move up by 32, every other character stays.
\<close>

definition lower_latin1 :: "nat \<Rightarrow> nat" where
  "lower_latin1 c =
     (if (65 \<le> c \<and> c \<le> 90) \<or> (192 \<le> c \<and> c \<le> 214) \<or> (216 \<le> c \<and> c \<le> 222)
      then c + 32 else c)"

text \<open>
  A \<^verbatim>\<open>dict\<close> keeps its keys in insertion order: an association list with one
  entry per key. \<open>dict_get d k v\<close> is \<^verbatim>\<open>d.get(k, v)\<close>, and
  \<open>dict_update d e\<close> is the dict \<open>d\<close> after \<^verbatim>\<open>d.update(e)\<close>: the entries of
  \<open>e\<close> are stored one after the other, a key already present keeps its place and takes
  the new value.
\<close>

type_synonym ('k, 'v) dict = "('k \<times> 'v) list"

definition dict_get :: "('k, 'v) dict \<Rightarrow> 'k \<Rightarrow> 'v \<Rightarrow> 'v" where
  "dict_get d k v = (case map_of d k of None \<Rightarrow> v | Some w \<Rightarrow> w)"

definition dict_update :: "('k, 'v) dict \<Rightarrow> ('k, 'v) dict \<Rightarrow> ('k, 'v) dict" where
  "dict_update d e = fold (\<lambda>(k, v) acc. AList.update k v acc) e d"

section \<open>Configuration (config.py)\<close>

text \<open>
  The entries of \<^verbatim>\<open>PERSONA_KNOWLEDGE\<close> and of \<^verbatim>\<open>JOB_PATTERNS\<close>. The fields
  are the keys of the source; \<open>p_\<close> marks a key of a persona profile and \<open>j_\<close> a key
  of a job profile.
\<close>

record persona_profile =
  p_keywords :: "(pystr, (pystr, int) dict) dict"
  p_sections :: "pystr list"
  p_focus_areas :: "pystr list"
  p_content_weights :: "(pystr, real) dict"

record job_profile =
  j_keywords :: "(pystr, (pystr, int) dict) dict"
  j_focus :: pystr
  j_content_weights :: "(pystr, real) dict"

definition researcher_profile :: persona_profile where
  "researcher_profile = \<lparr>
     p_keywords =
      [(u ''en'',
        [(u ''methodology'', 10), (u ''hypothesis'', 9), (u ''experiment'', 9),
         (u ''analysis'', 8), (u ''findings'', 8), (u ''conclusion'', 8),
         (u ''literature review'', 10), (u ''data'', 7), (u ''statistics'', 8),
         (u ''results'', 8), (u ''discussion'', 8), (u ''research question'', 9),
         (u ''sampling'', 7), (u ''variables'', 7), (u ''correlation'', 8),
         (u ''significance'', 8), (u ''peer review'', 9), (u ''citation'', 7),
         (u ''references'', 7), (u ''abstract'', 8), (u ''background'', 7),
         (u ''objectives'', 8), (u ''limitations'', 7), (u ''future work'', 7)]),
       (u ''es'',
        [(u ''metodolog'' @ [237] @ u ''a'', 10), (u ''hip'' @ [243] @ u ''tesis'', 9),
         (u ''experimento'', 9), (u ''an'' @ [225] @ u ''lisis'', 8),
         (u ''hallazgos'', 8), (u ''conclusi'' @ [243] @ u ''n'', 8),
         (u ''revisi'' @ [243] @ u ''n literaria'', 10), (u ''datos'', 7),
         (u ''estad'' @ [237] @ u ''sticas'', 8), (u ''resultados'', 8),
         (u ''discusi'' @ [243] @ u ''n'', 8),
         (u ''pregunta investigaci'' @ [243] @ u ''n'', 9), (u ''muestreo'', 7),
         (u ''variables'', 7), (u ''correlaci'' @ [243] @ u ''n'', 8),
         (u ''significancia'', 8), (u ''revisi'' @ [243] @ u ''n pares'', 9),
         (u ''cita'', 7), (u ''referencias'', 7), (u ''resumen'', 8),
         (u ''antecedentes'', 7), (u ''objetivos'', 8), (u ''limitaciones'', 7),
         (u ''trabajo futuro'', 7)])],
     p_sections =
      [u ''introduction'', u ''methodology'', u ''results'', u ''discussion'',
       u ''conclusion'', u ''abstract'', u ''literature review''],
     p_focus_areas =
      [u ''research design'', u ''data analysis'', u ''statistical methods'',
       u ''findings interpretation''],
     p_content_weights =
      [(u ''technical_depth'', 9 / 10), (u ''methodology_focus'', 8 / 10),
       (u ''data_analysis'', 9 / 10), (u ''conceptual_framework'', 7 / 10)]\<rparr>"

definition student_profile :: persona_profile where
  "student_profile = \<lparr>
     p_keywords =
      [(u ''en'',
        [(u ''concept'', 9), (u ''definition'', 9), (u ''example'', 8),
         (u ''explanation'', 8), (u ''theory'', 8), (u ''principle'', 8),
         (u ''formula'', 8), (u ''step-by-step'', 9), (u ''tutorial'', 9),
         (u ''practice'', 8), (u ''exercise'', 8), (u ''summary'', 8),
         (u ''key points'', 9), (u ''learning objectives'', 9), (u ''overview'', 7),
         (u ''introduction'', 7), (u ''basics'', 8), (u ''fundamentals'', 8),
         (u ''guide'', 8), (u ''how to'', 8), (u ''tips'', 7),
         (u ''common mistakes'', 8), (u ''review'', 7)])],
     p_sections =
      [u ''introduction'', u ''overview'', u ''examples'', u ''summary'',
       u ''key concepts'', u ''practice problems''],
     p_focus_areas =
      [u ''fundamental concepts'', u ''practical examples'',
       u ''step-by-step explanations''],
     p_content_weights =
      [(u ''clarity'', 9 / 10), (u ''examples'', 8 / 10),
       (u ''step_by_step'', 8 / 10), (u ''basics_focus'', 9 / 10)]\<rparr>"

definition analyst_profile :: persona_profile where
  "analyst_profile = \<lparr>
     p_keywords =
      [(u ''en'',
        [(u ''trend'', 9), (u ''pattern'', 9), (u ''insight'', 9), (u ''analysis'', 8),
         (u ''comparison'', 8), (u ''benchmark'', 8), (u ''metric'', 8), (u ''kpi'', 9),
         (u ''performance'', 8), (u ''evaluation'', 8), (u ''assessment'', 8),
         (u ''recommendation'', 9), (u ''forecast'', 9), (u ''projection'', 8),
         (u ''market'', 8), (u ''industry'', 7), (u ''competitive'', 8),
         (u ''strategy'', 8), (u ''optimization'', 8), (u ''efficiency'', 7),
         (u ''roi'', 9), (u ''growth'', 8), (u ''opportunity'', 8), (u ''risk'', 8)])],
     p_sections =
      [u ''executive summary'', u ''analysis'', u ''findings'', u ''recommendations'',
       u ''conclusions''],
     p_focus_areas =
      [u ''data interpretation'', u ''trend analysis'', u ''business insights''],
     p_content_weights =
      [(u ''data_driven'', 9 / 10), (u ''insights'', 9 / 10),
       (u ''actionable'', 8 / 10), (u ''strategic'', 8 / 10)]\<rparr>"

definition literature_review_profile :: job_profile where
  "literature_review_profile = \<lparr>
     j_keywords =
      [(u ''en'',
        [(u ''literature'', 10), (u ''review'', 9), (u ''research'', 8),
         (u ''study'', 8), (u ''paper'', 7), (u ''publication'', 7),
         (u ''methodology'', 8), (u ''findings'', 8), (u ''conclusion'', 8),
         (u ''citation'', 7), (u ''references'', 7), (u ''background'', 7),
         (u ''existing work'', 8), (u ''previous research'', 8), (u ''gap'', 8),
         (u ''contribution'', 7)])],
     j_focus = u ''comprehensive overview of existing research'',
     j_content_weights =
      [(u ''comprehensive'', 9 / 10), (u ''analytical'', 8 / 10),
       (u ''synthesis'', 8 / 10), (u ''critical'', 7 / 10)]\<rparr>"

definition exam_preparation_profile :: job_profile where
  "exam_preparation_profile = \<lparr>
     j_keywords =
      [(u ''en'',
        [(u ''concept'', 9), (u ''definition'', 9), (u ''formula'', 8),
         (u ''example'', 8), (u ''practice'', 8), (u ''key points'', 9),
         (u ''summary'', 8), (u ''review'', 8), (u ''important'', 8),
         (u ''essential'', 8), (u ''core'', 8), (u ''fundamental'', 8), (u ''test'', 7),
         (u ''exam'', 7), (u ''question'', 7), (u ''answer'', 7)])],
     j_focus = u ''essential concepts and examples for testing'',
     j_content_weights =
      [(u ''essential'', 9 / 10), (u ''clear'', 8 / 10), (u ''memorable'', 7 / 10),
       (u ''practical'', 8 / 10)]\<rparr>"

definition SECTION_KEYWORDS :: "(pystr \<times> pystr list) list" where
  "SECTION_KEYWORDS =
    [(u ''en'',
      [u ''introduction'', u ''methodology'', u ''results'', u ''discussion'',
       u ''conclusion'']),
     (u ''es'',
      [u ''introducci'' @ [243] @ u ''n'', u ''metodolog'' @ [237] @ u ''a'',
       u ''resultados'', u ''discusi'' @ [243] @ u ''n'',
       u ''conclusi'' @ [243] @ u ''n'']),
     (u ''fr'',
      [u ''introduction'', u ''m'' @ [233] @ u ''thodologie'',
       u ''r'' @ [233] @ u ''sultats'', u ''discussion'', u ''conclusion'']),
     (u ''de'',
      [u ''einf'' @ [252] @ u ''hrung'', u ''methodik'', u ''ergebnisse'',
       u ''diskussion'', u ''schlussfolgerung'']),
     (u ''hi'',
      [[2346, 2352, 2367, 2330, 2351], [2346, 2342, 2381, 2343, 2340, 2367],
       [2346, 2352, 2367, 2339, 2366, 2350], [2330, 2352, 2381, 2330, 2366],
       [2344, 2367, 2359, 2381, 2325, 2352, 2381, 2359]])]"

definition TECHNICAL_TERMS :: "(pystr \<times> pystr list) list" where
  "TECHNICAL_TERMS =
    [(u ''en'',
      [u ''analysis'', u ''method'', u ''process'', u ''system'', u ''data'',
       u ''result'']),
     (u ''es'',
      [u ''an'' @ [225] @ u ''lisis'', u ''m'' @ [233] @ u ''todo'', u ''proceso'',
       u ''sistema'', u ''datos'', u ''resultado'']),
     (u ''fr'',
      [u ''analyse'', u ''m'' @ [233] @ u ''thode'', u ''processus'',
       u ''syst'' @ [232] @ u ''me'', u ''donn'' @ [233] @ u ''es'',
       u ''r'' @ [233] @ u ''sultat'']),
     (u ''de'',
      [u ''analyse'', u ''methode'', u ''prozess'', u ''system'', u ''daten'',
       u ''ergebnis'']),
     (u ''hi'',
      [[2357, 2367, 2358, 2381, 2354, 2375, 2359, 2339], [2357, 2367, 2343, 2367],
       [2346, 2381, 2352, 2325, 2381, 2352, 2367, 2351, 2366],
       [2360, 2367, 2360, 2381, 2335, 2350], [2337, 2375, 2335, 2366],
       [2346, 2352, 2367, 2339, 2366, 2350]])]"

definition PERSONA_KNOWLEDGE :: "(pystr, persona_profile) dict" where
  "PERSONA_KNOWLEDGE =
     [(u ''researcher'', researcher_profile),
      (u ''student'', student_profile),
      (u ''analyst'', analyst_profile)]"

definition JOB_PATTERNS :: "(pystr, job_profile) dict" where
  "JOB_PATTERNS =
     [(u ''literature_review'', literature_review_profile),
      (u ''exam_preparation'', exam_preparation_profile)]"

text \<open>
  \<^verbatim>\<open>LANGUAGE_PATTERNS\<close>: every pattern is one character class followed by
  \<^verbatim>\<open>+\<close>, so a pattern is given by the class, a predicate on code points. Each
  class contains \<^verbatim>\<open>\s\<close>.
\<close>

definition ascii_letter :: "nat \<Rightarrow> bool" where
  "ascii_letter c = ((97 \<le> c \<and> c \<le> 122) \<or> (65 \<le> c \<and> c \<le> 90))"

definition LANGUAGE_PATTERNS :: "(pystr, nat \<Rightarrow> bool) dict" where
  "LANGUAGE_PATTERNS =
     [(u ''en'', \<lambda>c. ascii_letter c \<or> isspace c),
      (u ''es'', \<lambda>c. ascii_letter c \<or>
         c \<in> set [225, 233, 237, 243, 250, 241, 252, 193, 201, 205, 211, 218, 209, 220] \<or>
         isspace c),
      (u ''fr'', \<lambda>c. ascii_letter c \<or>
         c \<in> set [224, 226, 228, 233, 232, 234, 235, 239, 238, 244, 246, 249, 251, 252, 255,
                  231, 192, 194, 196, 201, 200, 202, 203, 207, 206, 212, 214, 217, 219, 220,
                  376, 199] \<or>
         isspace c),
      (u ''de'', \<lambda>c. ascii_letter c \<or> c \<in> set [228, 246, 252, 223, 196, 214, 220] \<or>
         isspace c),
      (u ''hi'', \<lambda>c. (2304 \<le> c \<and> c \<le> 2431) \<or> isspace c),
      (u ''it'', \<lambda>c. ascii_letter c \<or>
         c \<in> set [224, 232, 233, 236, 237, 238, 242, 243, 249, 192, 200, 201, 204, 205, 206,
                  210, 211, 217] \<or>
         isspace c),
      (u ''pt'', \<lambda>c. ascii_letter c \<or>
         c \<in> set [224, 225, 226, 227, 231, 233, 234, 237, 243, 244, 245, 250, 192, 193, 194,
                  195, 199, 201, 202, 205, 211, 212, 213, 218] \<or>
         isspace c)]"

section \<open>Collaborators\<close>

text \<open>
  What the program takes from outside its own files, as one record:
  \<^item> \<open>langdetect\<close> and \<open>langid\<close>: the two language identification packages. The
    outer \<open>None\<close> is a package that could not be imported
    (\<^verbatim>\<open>LANGDETECT_AVAILABLE\<close>, \<^verbatim>\<open>LANGID_AVAILABLE\<close> false); the inner
    \<open>None\<close> is a call that raised.
  \<^item> \<open>sentence_model\<close>: the embedding model; applied to a text and a reference text it
    gives their cosine similarity, or \<open>None\<close> when encoding raised. The outer
    \<open>None\<close> is the absent model.
  \<^item> \<open>sent_tokenize\<close>: the sentence splitter of nltk.
  \<^item> \<open>unicode_lower\<close>: \<^verbatim>\<open>str.lower()\<close> on a string with a code point from 256 on
    (below, \<open>lower_latin1\<close> is the whole case mapping).
  \<^item> \<open>start_time\<close> and \<open>time_at\<close>: the clock reading taken when the processor was
    built, and the k-th reading of \<^verbatim>\<open>time.time()\<close> after it.
  \<^item> \<open>float_str\<close>: the text an f-string prints for a float.
  \<^item> \<open>path_exists\<close>, \<open>listdir\<close>, \<open>path_join\<close>: the file system calls of
    \<^verbatim>\<open>os\<close>; \<open>extract_document_content_multilingual\<close>: the PDF extractor.
\<close>

record text_block =
  tb_text :: pystr
  tb_font_size :: real
  tb_is_bold :: bool
  tb_font_name :: pystr
  tb_bbox :: "real \<times> real \<times> real \<times> real"
  tb_language :: "pystr option"

record page =
  page_number :: nat
  text_blocks :: "text_block list"
  headings :: "text_block list"
  body_text :: "text_block list"
  languages :: "pystr set"

record document_content =
  pages :: "page list"
  filename :: "pystr option"
  detected_languages :: "pystr set option"

record env =
  langdetect :: "(pystr \<Rightarrow> pystr option) option"
  langid :: "(pystr \<Rightarrow> pystr option) option"
  sentence_model :: "(pystr \<Rightarrow> pystr \<Rightarrow> real option) option"
  sent_tokenize :: "pystr \<Rightarrow> pystr list"
  unicode_lower :: "pystr \<Rightarrow> pystr"
  start_time :: real
  time_at :: "nat \<Rightarrow> real"
  float_str :: "real \<Rightarrow> pystr"
  path_exists :: "pystr \<Rightarrow> bool"
  listdir :: "pystr \<Rightarrow> pystr list"
  path_join :: "pystr \<Rightarrow> pystr \<Rightarrow> pystr"
  extract_document_content_multilingual :: "pystr \<Rightarrow> document_content"

definition lower :: "env \<Rightarrow> pystr \<Rightarrow> pystr" where
  "lower E s = (if list_all (\<lambda>c. c < 256) s then map lower_latin1 s else unicode_lower E s)"

section \<open>Language detector (language_detector.py)\<close>

text \<open>
  \<^verbatim>\<open>len(re.findall(pattern, text))\<close> for a pattern \<^verbatim>\<open>[class]+\<close>: the number of
  maximal runs of characters of the class. The flag says whether the previous character
  was in the class.
\<close>

fun count_runs :: "(nat \<Rightarrow> bool) \<Rightarrow> bool \<Rightarrow> pystr \<Rightarrow> nat" where
  "count_runs cls inside [] = 0"
| "count_runs cls inside (c # cs) =
     (if cls c then (if inside then 0 else 1) + count_runs cls True cs
      else count_runs cls False cs)"

text \<open>
  \<^verbatim>\<open>max(lang_scores, key=lang_scores.get)\<close>: the keys are visited in insertion
  order and a later key replaces the best one only when its value is strictly greater.
\<close>

fun max_by_value :: "pystr \<times> real \<Rightarrow> (pystr, real) dict \<Rightarrow> pystr" where
  "max_by_value best [] = fst best"
| "max_by_value best (p # ps) =
     (if snd p > snd best then max_by_value p ps else max_by_value best ps)"

definition pattern_based_detection :: "env \<Rightarrow> pystr \<Rightarrow> pystr" where
  "pattern_based_detection E text =
     (let text_lower = lower E text;
          lang_scores = concat (map (\<lambda>(lang, pattern).
              let matches = count_runs pattern False text_lower
              in if matches > 0 then [(lang, real matches / real (length text_lower))] else [])
            LANGUAGE_PATTERNS)
      in case lang_scores of [] \<Rightarrow> u ''en'' | p # ps \<Rightarrow> max_by_value p ps)"

text \<open>
  \<open>detect_language_calls\<close> is \<^verbatim>\<open>detect_language\<close> together with the detection
  strategies it called, in the order of the calls.
\<close>

datatype strategy = Langdetect | Langid | Pattern_based

definition detect_after_langdetect :: "env \<Rightarrow> pystr \<Rightarrow> strategy list \<Rightarrow> pystr \<times> strategy list" where
  "detect_after_langdetect E text calls =
     (case langid E of
        None \<Rightarrow> (pattern_based_detection E text, calls @ [Pattern_based])
      | Some classify \<Rightarrow>
          (case classify text of
             Some lang \<Rightarrow> (lang, calls @ [Langid])
           | None \<Rightarrow> (pattern_based_detection E text, calls @ [Langid, Pattern_based])))"

definition detect_language_calls :: "env \<Rightarrow> pystr option \<Rightarrow> pystr \<times> strategy list" where
  "detect_language_calls E text =
     (case text of
        None \<Rightarrow> (u ''en'', [])
      | Some t \<Rightarrow>
          if t = [] \<or> length (strip t) < 10 then (u ''en'', [])
          else (case langdetect E of
                  None \<Rightarrow> detect_after_langdetect E t []
                | Some detect \<Rightarrow>
                    (case detect t of
                       Some lang \<Rightarrow> (lang, [Langdetect])
                     | None \<Rightarrow> detect_after_langdetect E t [Langdetect])))"

definition detect_language :: "env \<Rightarrow> pystr option \<Rightarrow> pystr" where
  "detect_language E text = fst (detect_language_calls E text)"

section \<open>Relevance analyzer (relevance_analyzer.py)\<close>

definition get_keywords_for_language :: "pystr \<Rightarrow> pystr \<Rightarrow> pystr \<Rightarrow> (pystr, int) dict" where
  "get_keywords_for_language persona job language =
     (let persona_keywords =
            (case map_of PERSONA_KNOWLEDGE persona of None \<Rightarrow> [] | Some p \<Rightarrow> p_keywords p);
          job_keywords =
            (case map_of JOB_PATTERNS job of None \<Rightarrow> [] | Some j \<Rightarrow> j_keywords j);
          persona_lang_keywords =
            dict_get persona_keywords language (dict_get persona_keywords (u ''en'') []);
          job_lang_keywords =
            dict_get job_keywords language (dict_get job_keywords (u ''en'') []);
          combined_keywords = dict_update (dict_update [] persona_lang_keywords) job_lang_keywords
      in combined_keywords)"

text \<open>
  The four parts of the score. \<open>keyword_component\<close> is step 1 of
  \<^verbatim>\<open>calculate_semantic_relevance_multilingual\<close>: the weights of the keywords that
  occur in the lower-cased text, over the weights of all keywords (over 1 for an empty
  table), times 40. \<open>semantic_component\<close> is step 2: nothing without a model or when
  the model raises, else 30 times the similarity of the text and the reference text.
\<close>

definition keyword_component :: "(pystr, int) dict \<Rightarrow> pystr \<Rightarrow> real" where
  "keyword_component keywords text_lower =
     (let keyword_score = sum_list (map snd (filter (\<lambda>(keyword, weight). str_in keyword text_lower) keywords));
          max_keyword_score = (if keywords = [] then 1 else sum_list (map snd keywords))
      in (real_of_int keyword_score / real_of_int max_keyword_score) * 40)"

definition semantic_component :: "env \<Rightarrow> pystr \<Rightarrow> pystr \<Rightarrow> pystr \<Rightarrow> (pystr, int) dict \<Rightarrow> real" where
  "semantic_component E text persona job keywords =
     (case sentence_model E of
        None \<Rightarrow> 0
      | Some model \<Rightarrow>
          (let reference_text = persona @ u '' '' @ job @ u '' '' @ join (u '' '') (map fst keywords)
           in case model text reference_text of
                None \<Rightarrow> 0
              | Some similarity \<Rightarrow> similarity * 30))"

definition calculate_structure_score :: "pystr \<Rightarrow> pystr \<Rightarrow> int" where
  "calculate_structure_score text_lower language =
     (let lang_sections = dict_get SECTION_KEYWORDS language (dict_get SECTION_KEYWORDS (u ''en'') []);
          structure_score = sum_list (map (\<lambda>section. if str_in section text_lower then 5 else 0) lang_sections)
      in min structure_score 20)"

definition calculate_quality_score :: "env \<Rightarrow> pystr \<Rightarrow> pystr \<Rightarrow> pystr \<Rightarrow> int" where
  "calculate_quality_score E text language persona =
     (let length_points =
            (if 50 \<le> length text \<and> length text \<le> 500 then 5
             else if 20 \<le> length text \<and> length text \<le> 1000 then 3 else 0);
          sentences = sent_tokenize E text;
          sentence_points = (if 1 \<le> length sentences \<and> length sentences \<le> 5 then 3 else 0);
          term_points =
            (if persona \<in> set [u ''researcher'', u ''developer'', u ''analyst''] then
               (let lang_terms = dict_get TECHNICAL_TERMS language (dict_get TECHNICAL_TERMS (u ''en'') [])
                in if list_ex (\<lambda>term. str_in term (lower E text)) lang_terms then 2 else 0)
             else 0)
      in length_points + sentence_points + term_points)"

definition calculate_semantic_relevance_multilingual :: "env \<Rightarrow> pystr option \<Rightarrow> pystr \<Rightarrow> pystr \<Rightarrow> real" where
  "calculate_semantic_relevance_multilingual E text persona job =
     (case text of
        None \<Rightarrow> 0
      | Some t \<Rightarrow>
          if t = [] \<or> length (strip t) < 10 then 0
          else
            (let detected_lang = detect_language E (Some t);
                 text_lower = lower E t;
                 keywords = get_keywords_for_language persona job detected_lang;
                 relevance_score =
                   keyword_component keywords text_lower
                   + semantic_component E t persona job keywords
                   + real_of_int (calculate_structure_score text_lower detected_lang)
                   + real_of_int (calculate_quality_score E t detected_lang persona)
             in min 100 (max 0 relevance_score)))"

text \<open>
  \<^verbatim>\<open>list.sort(key=..., reverse=True)\<close> and \<^verbatim>\<open>sorted(..., reverse=True)\<close>:
  the list is reversed, sorted by ascending key with a stable sort and reversed again,
  which is how CPython keeps the input order of equal keys in a descending sort.
\<close>

definition sorted_reverse :: "('a \<Rightarrow> 'k::linorder) \<Rightarrow> 'a list \<Rightarrow> 'a list" where
  "sorted_reverse key xs = rev (sort_key key (rev xs))"

definition refine_content_for_persona :: "env \<Rightarrow> pystr \<Rightarrow> pystr \<Rightarrow> pystr \<Rightarrow> pystr" where
  "refine_content_for_persona E content persona job =
     (let sentences = sent_tokenize E content;
          scored_sentences =
            map (\<lambda>sentence. (sentence, calculate_semantic_relevance_multilingual E (Some sentence) persona job))
              sentences;
          scored_sentences = sorted_reverse snd scored_sentences;
          max_sentences = (if persona \<in> set [u ''researcher'', u ''analyst''] then 4 else 3);
          selected_sentences = map fst (filter (\<lambda>s. snd s > 20) (take max_sentences scored_sentences))
      in if selected_sentences = [] then take 300 content else join (u '' '') selected_sentences)"

section \<open>Document extractor (document_extractor.py)\<close>

text \<open>
  \<^verbatim>\<open>_find_associated_content\<close>: the texts of the body blocks whose top edge
  (\<^verbatim>\<open>bbox[1]\<close>) is greater than the heading's; when there is none and the page is
  not the last one, the body blocks of the next page (\<open>current_page\<close> counts from 1, so
  it is the index of the next page); the first three, joined by a space.
\<close>

definition bbox_y0 :: "real \<times> real \<times> real \<times> real \<Rightarrow> real" where
  "bbox_y0 b = fst (snd b)"

definition find_associated_content :: "text_block \<Rightarrow> text_block list \<Rightarrow> page list \<Rightarrow> nat \<Rightarrow> pystr" where
  "find_associated_content heading body all_pages current_page =
     (let heading_bbox = tb_bbox heading;
          on_page = map tb_text (filter (\<lambda>text_block. bbox_y0 (tb_bbox text_block) > bbox_y0 heading_bbox) body);
          associated_content =
            (if on_page = [] \<and> current_page < length all_pages
             then map tb_text (body_text (all_pages ! current_page))
             else on_page)
      in join (u '' '') (take 3 associated_content))"

section \<open>Persona processor (persona_processor.py)\<close>

text \<open>
  The dicts the processor builds (sections, subsections and the entries of the result)
  are dicts over a fixed set of keys. A field is \<open>None\<close> when the dict has no such key.
  \<open>d[k]\<close> on a missing key raises \<^verbatim>\<open>KeyError\<close>; \<open>d.get(k, v)\<close> gives \<open>v\<close>.
\<close>

datatype error = KeyError string

record entry =
  document :: "pystr option"
  page :: "nat option"
  section_title :: "pystr option"
  content :: "pystr option"
  relevance_score :: "real option"
  font_size :: "real option"
  is_bold :: "bool option"
  language :: "pystr option"
  refined_text :: "pystr option"
  persona_focus :: "pystr list option"
  job_alignment :: "pystr option"
  importance_rank :: "nat option"
  selection_reasoning :: "pystr option"
  content_preview :: "pystr option"

definition empty_dict :: entry where
  "empty_dict =
     \<lparr>document = None, page = None, section_title = None, content = None,
      relevance_score = None, font_size = None, is_bold = None, language = None,
      refined_text = None, persona_focus = None, job_alignment = None,
      importance_rank = None, selection_reasoning = None, content_preview = None\<rparr>"

definition item :: "'a option \<Rightarrow> string \<Rightarrow> error + 'a" where
  "item field key = (case field of None \<Rightarrow> Inl (KeyError key) | Some v \<Rightarrow> Inr v)"

definition get_default :: "'a option \<Rightarrow> 'a \<Rightarrow> 'a" where
  "get_default field v = (case field of None \<Rightarrow> v | Some w \<Rightarrow> w)"

text \<open>
  \<open>check_time_limit E n\<close> is the check made with the \<open>n\<close>-th clock reading; each
  loop below passes on the number of readings taken so far.
\<close>

definition check_time_limit :: "env \<Rightarrow> nat \<Rightarrow> bool" where
  "check_time_limit E n =
     (let elapsed = time_at E n - start_time E in if elapsed > 300 then False else True)"

text \<open>\<^verbatim>\<open>round(x, 2)\<close>: to the nearest hundredth, a tie to the even one.\<close>

definition round_half_even :: "real \<Rightarrow> int" where
  "round_half_even x =
     (let f = \<lfloor>x\<rfloor>; d = x - real_of_int f
      in if d < 1 / 2 then f else if d > 1 / 2 then f + 1 else if even f then f else f + 1)"

definition round2 :: "real \<Rightarrow> real" where
  "round2 x = real_of_int (round_half_even (x * 100)) / 100"

text \<open>The decimal digits of a page number, as an f-string prints it.\<close>

fun nat_str :: "nat \<Rightarrow> pystr" where
  "nat_str n = (if n < 10 then [48 + n] else nat_str (n div 10) @ [48 + n mod 10])"

text \<open>
  The body of the loop over the headings of a page, and of the loop over its body
  blocks: the section built from the block, or \<open>None\<close> when the score does not pass
  the threshold.
\<close>

definition heading_section ::
  "env \<Rightarrow> document_content \<Rightarrow> page \<Rightarrow> text_block \<Rightarrow> pystr \<Rightarrow> pystr \<Rightarrow> entry option" where
  "heading_section E doc page_content heading persona job =
     (let page_num = page_number page_content;
          associated_content =
            find_associated_content heading (body_text page_content) (pages doc) page_num;
          combined_text = tb_text heading @ u '' '' @ associated_content;
          score = calculate_semantic_relevance_multilingual E (Some combined_text) persona job
      in if score > 15 then
           Some (empty_dict\<lparr>
             document := Some (get_default (filename doc) (u ''Unknown'')),
             page := Some page_num,
             section_title := Some (tb_text heading),
             content := Some associated_content,
             relevance_score := Some (round2 score),
             font_size := Some (tb_font_size heading),
             is_bold := Some (tb_is_bold heading),
             language := Some (get_default (tb_language heading) (u ''en''))\<rparr>)
         else None)"

definition body_section ::
  "env \<Rightarrow> document_content \<Rightarrow> page \<Rightarrow> text_block \<Rightarrow> pystr \<Rightarrow> pystr \<Rightarrow> entry option" where
  "body_section E doc page_content text_block persona job =
     (let page_num = page_number page_content;
          score = calculate_semantic_relevance_multilingual E (Some (tb_text text_block)) persona job
      in if score > 20 then
           Some (empty_dict\<lparr>
             document := Some (get_default (filename doc) (u ''Unknown'')),
             page := Some page_num,
             section_title := Some (u ''Content from page '' @ nat_str page_num),
             content := Some (tb_text text_block),
             relevance_score := Some (round2 score),
             font_size := Some (tb_font_size text_block),
             is_bold := Some (tb_is_bold text_block),
             language := Some (get_default (tb_language text_block) (u ''en''))\<rparr>)
         else None)"

fun blocks_loop ::
  "env \<Rightarrow> (text_block \<Rightarrow> entry option) \<Rightarrow> text_block list \<Rightarrow> nat \<Rightarrow> entry list \<times> nat" where
  "blocks_loop E body [] n = ([], n)"
| "blocks_loop E body (block # rest) n =
     (if check_time_limit E n then
        (case blocks_loop E body rest (Suc n) of
           (found, n') \<Rightarrow> ((case body block of None \<Rightarrow> [] | Some s \<Rightarrow> [s]) @ found, n'))
      else ([], Suc n))"

fun pages_loop ::
  "env \<Rightarrow> document_content \<Rightarrow> pystr \<Rightarrow> pystr \<Rightarrow> page list \<Rightarrow> nat \<Rightarrow> entry list \<times> nat" where
  "pages_loop E doc persona job [] n = ([], n)"
| "pages_loop E doc persona job (page_content # rest) n =
     (case blocks_loop E (\<lambda>heading. heading_section E doc page_content heading persona job)
             (headings page_content) n of
        (from_headings, n1) \<Rightarrow>
          (case blocks_loop E (\<lambda>text_block. body_section E doc page_content text_block persona job)
                  (body_text page_content) n1 of
             (from_body, n2) \<Rightarrow>
               (case pages_loop E doc persona job rest n2 of
                  (later, n3) \<Rightarrow> (from_headings @ from_body @ later, n3))))"

definition extract_relevant_sections_multilingual ::
  "env \<Rightarrow> document_content \<Rightarrow> pystr \<Rightarrow> pystr \<Rightarrow> nat \<Rightarrow> entry list \<times> nat" where
  "extract_relevant_sections_multilingual E doc persona job n =
     pages_loop E doc persona job (pages doc) n"

definition get_persona_focus_areas :: "pystr \<Rightarrow> pystr list" where
  "get_persona_focus_areas persona =
     (case map_of PERSONA_KNOWLEDGE persona of None \<Rightarrow> [] | Some p \<Rightarrow> p_focus_areas p)"

definition get_job_alignment :: "pystr \<Rightarrow> pystr" where
  "get_job_alignment job =
     (case map_of JOB_PATTERNS job of None \<Rightarrow> u ''General content'' | Some j \<Rightarrow> j_focus j)"

text \<open>
  The dict literal of \<^verbatim>\<open>create_subsection_analysis_advanced\<close>; its keys are read
  from the section in the order of the literal, the first missing one raises.
\<close>

definition subsection_of :: "entry \<Rightarrow> pystr \<Rightarrow> pystr \<Rightarrow> pystr \<Rightarrow> error + entry" where
  "subsection_of section refined persona job =
     (case item (document section) ''document'' of Inl e \<Rightarrow> Inl e | Inr doc \<Rightarrow>
     (case item (page section) ''page'' of Inl e \<Rightarrow> Inl e | Inr pg \<Rightarrow>
     (case item (section_title section) ''section_title'' of Inl e \<Rightarrow> Inl e | Inr title \<Rightarrow>
     (case item (relevance_score section) ''relevance_score'' of Inl e \<Rightarrow> Inl e | Inr score \<Rightarrow>
        Inr (empty_dict\<lparr>
          document := Some doc,
          page := Some pg,
          section_title := Some title,
          refined_text := Some refined,
          relevance_score := Some score,
          persona_focus := Some (get_persona_focus_areas persona),
          job_alignment := Some (get_job_alignment job)\<rparr>)))))"

fun create_subsection_analysis_advanced ::
  "env \<Rightarrow> entry list \<Rightarrow> pystr \<Rightarrow> pystr \<Rightarrow> nat \<Rightarrow> error + (entry list \<times> nat)" where
  "create_subsection_analysis_advanced E [] persona job n = Inr ([], n)"
| "create_subsection_analysis_advanced E (section # rest) persona job n =
     (if check_time_limit E n then
        (let text = get_default (content section) []
         in if text = [] \<or> length (strip text) < 20
            then create_subsection_analysis_advanced E rest persona job (Suc n)
            else
              (let refined = refine_content_for_persona E text persona job
               in if refined = []
                  then create_subsection_analysis_advanced E rest persona job (Suc n)
                  else
                    (case subsection_of section refined persona job of
                       Inl e \<Rightarrow> Inl e
                     | Inr subsection \<Rightarrow>
                         (case create_subsection_analysis_advanced E rest persona job (Suc n) of
                            Inl e \<Rightarrow> Inl e
                          | Inr (subsections, n') \<Rightarrow> Inr (subsection # subsections, n')))))
      else Inr ([], Suc n))"

text \<open>
  \<^verbatim>\<open>sorted(xs, key=lambda x: x['relevance_score'], reverse=True)\<close>: the key of
  every element is read before anything is compared, so one dict without the key
  raises.
\<close>

definition sorted_by_relevance :: "entry list \<Rightarrow> error + entry list" where
  "sorted_by_relevance xs =
     (if list_all (\<lambda>x. relevance_score x \<noteq> None) xs
      then Inr (sorted_reverse (\<lambda>x. get_default (relevance_score x) 0) xs)
      else Inl (KeyError ''relevance_score''))"

definition rank_and_filter_results_advanced ::
  "entry list \<Rightarrow> entry list \<Rightarrow> error + (entry list \<times> entry list)" where
  "rank_and_filter_results_advanced sections subsections =
     (case sorted_by_relevance sections of
        Inl e \<Rightarrow> Inl e
      | Inr ranked_sections \<Rightarrow>
        (let filtered_sections =
               filter (\<lambda>section.
                  let content_length = length (get_default (content section) [])
                  in 50 \<le> content_length \<and> content_length \<le> 2000) ranked_sections
         in (case sorted_by_relevance subsections of
               Inl e \<Rightarrow> Inl e
             | Inr ranked_subsections \<Rightarrow>
              (let filtered_subsections =
                     filter (\<lambda>subsection.
                        let refined_length = length (get_default (refined_text subsection) [])
                        in 30 \<le> refined_length \<and> refined_length \<le> 1000) ranked_subsections;
                   max_sections = 10;
                   max_subsections = 15
               in Inr (take max_sections filtered_sections,
                       take max_subsections filtered_subsections)))))"

text \<open>
  \<^verbatim>\<open>generate_selection_reasoning\<close> (relevance_analyzer.py). A missing
  \<^verbatim>\<open>relevance_score\<close> is read as the integer 0.
\<close>

definition generate_selection_reasoning :: "env \<Rightarrow> entry \<Rightarrow> pystr \<Rightarrow> pystr \<Rightarrow> pystr" where
  "generate_selection_reasoning E section persona job =
     (let title = get_default (section_title section) [];
          score = get_default (relevance_score section) 0;
          score_text = (case relevance_score section of None \<Rightarrow> u ''0'' | Some r \<Rightarrow> float_str E r);
          text = get_default (content section) [];
          lang = get_default (language section) (u ''en'');
          keywords = get_keywords_for_language persona job lang;
          title_lower = lower E title;
          content_lower = lower E text;
          matched_keywords =
            map fst (filter (\<lambda>(keyword, weight).
              str_in keyword title_lower \<or> str_in keyword content_lower) keywords);
          english = u ''Content in English with relevance score '' @ score_text;
          lang_reasons =
            [(u ''en'', english),
             (u ''es'', u ''Contenido en espa'' @ [241] @ u ''ol con puntuaci'' @ [243]
                @ u ''n de relevancia '' @ score_text),
             (u ''fr'', u ''Contenu en fran'' @ [231] @ u ''ais avec score de pertinence ''
                @ score_text),
             (u ''de'', u ''Inhalt auf Deutsch mit Relevanzbewertung '' @ score_text),
             (u ''hi'', [2361, 2367, 2306, 2342, 2368] @ u '' '' @ [2350, 2375, 2306] @ u '' ''
                @ [2360, 2366, 2350, 2327, 2381, 2352, 2368] @ u '' ''
                @ [2332, 2367, 2360, 2325, 2368] @ u '' ''
                @ [2346, 2381, 2352, 2366, 2360, 2306, 2327, 2367, 2325, 2340, 2366] @ u '' ''
                @ [2360, 2381, 2325, 2379, 2352] @ u '' '' @ score_text @ u '' ''
                @ [2361, 2376])];
          reasons =
            (if matched_keywords = [] then []
             else [u ''Contains relevant keywords: '' @ join (u '', '') (take 3 matched_keywords)])
            @ [dict_get lang_reasons lang english]
            @ (if length text > 100
               then [u ''Contains substantial content for detailed analysis''] else [])
            @ (if score > 50
               then [u ''High relevance score ('' @ score_text
                       @ u '') indicates strong semantic alignment'']
               else if score > 30
               then [u ''Moderate relevance score ('' @ score_text
                       @ u '') shows good content value'']
               else [])
      in join (u ''; '') reasons)"

text \<open>
  The two loops of \<^verbatim>\<open>process_documents_multilingual\<close> that build the entries of
  the result. \<open>i\<close> is the index of \<^verbatim>\<open>enumerate\<close>.
\<close>

definition section_entry :: "env \<Rightarrow> nat \<Rightarrow> entry \<Rightarrow> pystr \<Rightarrow> pystr \<Rightarrow> error + entry" where
  "section_entry E i section persona job =
     (let reasoning = generate_selection_reasoning E section persona job in
     (case item (document section) ''document'' of Inl e \<Rightarrow> Inl e | Inr doc \<Rightarrow>
     (case item (page section) ''page'' of Inl e \<Rightarrow> Inl e | Inr pg \<Rightarrow>
     (case item (section_title section) ''section_title'' of Inl e \<Rightarrow> Inl e | Inr title \<Rightarrow>
     (case item (relevance_score section) ''relevance_score'' of Inl e \<Rightarrow> Inl e | Inr score \<Rightarrow>
        Inr (empty_dict\<lparr>
          document := Some doc,
          page := Some pg,
          section_title := Some title,
          importance_rank := Some (i + 1),
          relevance_score := Some score,
          selection_reasoning := Some reasoning,
          content_preview := Some
            (let text = get_default (content section) []
             in if length text > 200 then take 200 text @ u ''...'' else text),
          language := Some (get_default (language section) (u ''en''))\<rparr>))))))"

fun section_entries :: "env \<Rightarrow> nat \<Rightarrow> entry list \<Rightarrow> pystr \<Rightarrow> pystr \<Rightarrow> error + entry list" where
  "section_entries E i [] persona job = Inr []"
| "section_entries E i (section # rest) persona job =
     (case section_entry E i section persona job of
        Inl e \<Rightarrow> Inl e
      | Inr x \<Rightarrow>
          (case section_entries E (Suc i) rest persona job of
             Inl e \<Rightarrow> Inl e
           | Inr xs \<Rightarrow> Inr (x # xs)))"

definition subsection_entry :: "env \<Rightarrow> entry \<Rightarrow> pystr \<Rightarrow> pystr \<Rightarrow> error + entry" where
  "subsection_entry E subsection persona job =
     (let reasoning = generate_selection_reasoning E subsection persona job in
     (case item (document subsection) ''document'' of Inl e \<Rightarrow> Inl e | Inr doc \<Rightarrow>
     (case item (page subsection) ''page'' of Inl e \<Rightarrow> Inl e | Inr pg \<Rightarrow>
     (case item (section_title subsection) ''section_title'' of Inl e \<Rightarrow> Inl e | Inr title \<Rightarrow>
     (case item (refined_text subsection) ''refined_text'' of Inl e \<Rightarrow> Inl e | Inr refined \<Rightarrow>
     (case item (relevance_score subsection) ''relevance_score'' of Inl e \<Rightarrow> Inl e | Inr score \<Rightarrow>
     (case item (persona_focus subsection) ''persona_focus'' of Inl e \<Rightarrow> Inl e | Inr areas \<Rightarrow>
     (case item (job_alignment subsection) ''job_alignment'' of Inl e \<Rightarrow> Inl e | Inr alignment \<Rightarrow>
        Inr (empty_dict\<lparr>
          document := Some doc,
          page := Some pg,
          section_title := Some title,
          refined_text := Some refined,
          relevance_score := Some score,
          selection_reasoning := Some reasoning,
          persona_focus := Some areas,
          job_alignment := Some alignment,
          language := Some (get_default (language subsection) (u ''en''))\<rparr>)))))))))"

fun subsection_entries :: "env \<Rightarrow> entry list \<Rightarrow> pystr \<Rightarrow> pystr \<Rightarrow> error + entry list" where
  "subsection_entries E [] persona job = Inr []"
| "subsection_entries E (subsection # rest) persona job =
     (case subsection_entry E subsection persona job of
        Inl e \<Rightarrow> Inl e
      | Inr x \<Rightarrow>
          (case subsection_entries E rest persona job of
             Inl e \<Rightarrow> Inl e
           | Inr xs \<Rightarrow> Inr (x # xs)))"

text \<open>
  The result of a run. \<open>error_message\<close> says which message the metadata carries, if
  any: the two messages the processor writes itself, or the exception it caught. The
  key \<^verbatim>\<open>processing_timestamp\<close> (the date of the run) is left out, and the list of
  detected languages is kept as the set it is made from.
\<close>

datatype failure = Input_directory_not_found pystr | No_PDF_files_found | Raised error

record result =
  input_documents :: "pystr list"
  result_persona :: pystr
  job_to_be_done :: pystr
  total_sections_found :: nat
  total_subsections_found :: nat
  processing_time_seconds :: real
  error_message :: "failure option"
  algorithm_version :: pystr
  result_languages :: "pystr set option"
  multilingual_support :: "bool option"
  extracted_sections :: "entry list"
  subsection_analysis :: "entry list"

definition create_empty_result :: "pystr \<Rightarrow> pystr \<Rightarrow> failure \<Rightarrow> result" where
  "create_empty_result persona job error_msg =
     \<lparr>input_documents = [], result_persona = persona, job_to_be_done = job,
      total_sections_found = 0, total_subsections_found = 0, processing_time_seconds = 0,
      error_message = Some error_msg, algorithm_version = u ''3.0_multilingual'',
      result_languages = None, multilingual_support = None,
      extracted_sections = [], subsection_analysis = []\<rparr>"

text \<open>\<^verbatim>\<open>s.endswith(ending)\<close>.\<close>

definition ends_with :: "pystr \<Rightarrow> pystr \<Rightarrow> bool" where
  "ends_with s ending = starts_with (rev s) (rev ending)"

text \<open>
  The loop over the PDF files: the sections and subsections of all files, the
  languages seen, and the number of clock readings.
\<close>

fun documents_loop ::
  "env \<Rightarrow> pystr \<Rightarrow> pystr list \<Rightarrow> pystr \<Rightarrow> pystr \<Rightarrow> nat \<Rightarrow>
     error + (entry list \<times> entry list \<times> pystr set \<times> nat)" where
  "documents_loop E docs_path [] persona job n = Inr ([], [], {}, n)"
| "documents_loop E docs_path (pdf_file # rest) persona job n =
     (if check_time_limit E n then
        (let pdf_path = path_join E docs_path pdf_file;
             doc = (extract_document_content_multilingual E pdf_path)\<lparr>filename := Some pdf_file\<rparr>;
             seen = get_default (detected_languages doc) {}
         in case extract_relevant_sections_multilingual E doc persona job (Suc n) of
              (sections, n1) \<Rightarrow>
                (case create_subsection_analysis_advanced E sections persona job n1 of
                   Inl e \<Rightarrow> Inl e
                 | Inr (subsections, n2) \<Rightarrow>
                     (case documents_loop E docs_path rest persona job n2 of
                        Inl e \<Rightarrow> Inl e
                      | Inr (all_sections, all_subsections, langs, n3) \<Rightarrow>
                          Inr (sections @ all_sections, subsections @ all_subsections,
                               seen \<union> langs, n3))))
      else Inr ([], [], {}, Suc n))"

definition process_documents_multilingual :: "env \<Rightarrow> pystr \<Rightarrow> pystr \<Rightarrow> pystr \<Rightarrow> result" where
  "process_documents_multilingual E docs_path persona job =
     (if path_exists E docs_path then
        (let pdf_files = filter (\<lambda>f. ends_with (lower E f) (u ''.pdf'')) (listdir E docs_path)
         in if pdf_files = [] then create_empty_result persona job No_PDF_files_found
            else
              (case documents_loop E docs_path pdf_files persona job 0 of
                 Inl e \<Rightarrow> create_empty_result persona job (Raised e)
               | Inr (all_sections, all_subsections, langs, n) \<Rightarrow>
                   (case rank_and_filter_results_advanced all_sections all_subsections of
                      Inl e \<Rightarrow> create_empty_result persona job (Raised e)
                    | Inr (ranked_sections, ranked_subsections) \<Rightarrow>
                        (case section_entries E 0 ranked_sections persona job of
                           Inl e \<Rightarrow> create_empty_result persona job (Raised e)
                         | Inr sections_out \<Rightarrow>
                             (case subsection_entries E ranked_subsections persona job of
                                Inl e \<Rightarrow> create_empty_result persona job (Raised e)
                              | Inr subsections_out \<Rightarrow>
                                  (let total_time = time_at E n - start_time E
                                   in \<lparr>input_documents = pdf_files,
                                       result_persona = persona,
                                       job_to_be_done = job,
                                       total_sections_found = length sections_out,
                                       total_subsections_found = length subsections_out,
                                       processing_time_seconds = round2 total_time,
                                       error_message = None,
                                       algorithm_version = u ''3.0_multilingual'',
                                       result_languages = Some langs,
                                       multilingual_support = Some True,
                                       extracted_sections = sections_out,
                                       subsection_analysis = subsections_out\<rparr>))))))
      else create_empty_result persona job (Input_directory_not_found docs_path))"

section \<open>Concrete inputs\<close>

text \<open>
  An environment with neither language identification package and no embedding model,
  a sentence splitter that returns the text as one sentence, a clock that stands still
  and an empty input directory. With it \<^verbatim>\<open>detect_language\<close> falls through to the
  pattern matcher of language_detector.py.
\<close>

definition offline_env :: env where
  "offline_env =
     \<lparr>langdetect = None, langid = None, sentence_model = None,
      sent_tokenize = (\<lambda>t. [t]), unicode_lower = (\<lambda>s. s),
      start_time = 0, time_at = (\<lambda>k. 0), float_str = (\<lambda>r. u ''0.0''),
      path_exists = (\<lambda>p. True), listdir = (\<lambda>p. []), path_join = (\<lambda>a b. a @ u ''/'' @ b),
      extract_document_content_multilingual =
        (\<lambda>p. \<lparr>pages = [], filename = None, detected_languages = None\<rparr>)\<rparr>"

text \<open>The same environment with a language identification package that answers English.\<close>

definition english_env :: env where
  "english_env = offline_env\<lparr>langdetect := Some (\<lambda>t. Some (u ''en''))\<rparr>"

definition methodology_text :: pystr where
  "methodology_text =
     u ''Methodology: This study used a randomized controlled experiment with statistical analysis of variance.''"

text \<open>
  The lower-cased text, and the dict that \<^verbatim>\<open>get_keywords_for_language\<close> builds for
  the persona \<^verbatim>\<open>researcher\<close> and the job \<^verbatim>\<open>literature_review\<close> from their
  English maps.
\<close>

definition methodology_lower :: pystr where
  "methodology_lower =
     u ''methodology: this study used a randomized controlled experiment with statistical analysis of variance.''"

definition researcher_review_keywords :: "(pystr, int) dict" where
  "researcher_review_keywords =
    [(u ''methodology'', 8), (u ''hypothesis'', 9), (u ''experiment'', 9),
     (u ''analysis'', 8), (u ''findings'', 8), (u ''conclusion'', 8),
     (u ''literature review'', 10), (u ''data'', 7), (u ''statistics'', 8),
     (u ''results'', 8), (u ''discussion'', 8), (u ''research question'', 9),
     (u ''sampling'', 7), (u ''variables'', 7), (u ''correlation'', 8),
     (u ''significance'', 8), (u ''peer review'', 9), (u ''citation'', 7),
     (u ''references'', 7), (u ''abstract'', 8), (u ''background'', 7),
     (u ''objectives'', 8), (u ''limitations'', 7), (u ''future work'', 7),
     (u ''literature'', 10), (u ''review'', 9), (u ''research'', 8),
     (u ''study'', 8), (u ''paper'', 7), (u ''publication'', 7),
     (u ''existing work'', 8), (u ''previous research'', 8), (u ''gap'', 8),
     (u ''contribution'', 7)]"

text \<open>
  A dict with a title and a score, a content of 60 characters and a refined text of 40,
  so that it passes both length filters of the ranking.
\<close>

definition sample_entry :: "pystr \<Rightarrow> real \<Rightarrow> entry" where
  "sample_entry title score =
     empty_dict\<lparr>section_title := Some title, content := Some (replicate 60 97),
       relevance_score := Some score, refined_text := Some (replicate 40 97)\<rparr>"

text \<open>
  An environment whose language identification answers English and whose embedding
  model gives every pair of texts the similarity 17/30, and a document of one page
  with one body block of ten letters. For a persona and a job without a profile the
  score of the block is 17 from the embedding model and 3 for being one sentence.
\<close>

definition boundary_env :: env where
  "boundary_env = english_env\<lparr>sentence_model := Some (\<lambda>text reference_text. Some (17 / 30))\<rparr>"

definition boundary_block :: text_block where
  "boundary_block =
     \<lparr>tb_text = u ''aaaaaaaaaa'', tb_font_size = 10, tb_is_bold = False,
      tb_font_name = u ''Helvetica'', tb_bbox = (72, 100, 200, 112),
      tb_language = Some (u ''en'')\<rparr>"

definition boundary_page :: page where
  "boundary_page =
     \<lparr>page_number = 1, text_blocks = [boundary_block], headings = [],
      body_text = [boundary_block], languages = {u ''en''}\<rparr>"

definition boundary_document :: document_content where
  "boundary_document =
     \<lparr>pages = [boundary_page], filename = Some (u ''a.pdf''),
      detected_languages = Some {u ''en''}\<rparr>"

text \<open>
  The same environment with the similarity 1, for which the block scores 33, and that
  one with a clock that reads 301 seconds after the start at every reading, so that
  every check of the time limit fails.
\<close>

definition generous_env :: env where
  "generous_env = english_env\<lparr>sentence_model := Some (\<lambda>text reference_text. Some 1)\<rparr>"

definition late_env :: env where
  "late_env = generous_env\<lparr>time_at := (\<lambda>k. 301)\<rparr>"

section \<open>Definitions that follow the specification\<close>

text \<open>
  The merged keyword table in the words of the specification: the table of a profile
  for a language is its map for that language, or its English map when it has none for
  the language (an absent profile has no map at all); the merged table takes the job's
  weight for a keyword when the job has one, and the persona's weight otherwise.
\<close>

definition language_table :: "(pystr, (pystr, int) dict) dict \<Rightarrow> pystr \<Rightarrow> (pystr \<rightharpoonup> int)" where
  "language_table tables lang =
     (case map_of tables lang of
        Some table \<Rightarrow> map_of table
      | None \<Rightarrow> (case map_of tables (u ''en'') of Some table \<Rightarrow> map_of table | None \<Rightarrow> Map.empty))"

definition merged_keyword_table :: "pystr \<Rightarrow> pystr \<Rightarrow> pystr \<Rightarrow> (pystr \<rightharpoonup> int)" where
  "merged_keyword_table persona job lang =
     (let persona_table =
            language_table (case map_of PERSONA_KNOWLEDGE persona of None \<Rightarrow> [] | Some p \<Rightarrow> p_keywords p) lang;
          job_table =
            language_table (case map_of JOB_PATTERNS job of None \<Rightarrow> [] | Some j \<Rightarrow> j_keywords j) lang
      in (\<lambda>keyword. case job_table keyword of Some weight \<Rightarrow> Some weight | None \<Rightarrow> persona_table keyword))"

text \<open>All keyword tables of the configuration.\<close>

definition keyword_tables :: "(pystr, int) dict list" where
  "keyword_tables =
     concat (map (\<lambda>(name, p). map snd (p_keywords p)) PERSONA_KNOWLEDGE)
     @ concat (map (\<lambda>(name, j). map snd (j_keywords j)) JOB_PATTERNS)"

text \<open>The number of characters of a string that are not whitespace.\<close>

definition non_whitespace_count :: "pystr \<Rightarrow> nat" where
  "non_whitespace_count s = length (filter (\<lambda>c. if isspace c then False else True) s)"

text \<open>
  The sentences that content refinement keeps, in the words of the specification: the
  sentences in descending order of score, those with a score above 20, at most 4 of
  them for the personas \<^verbatim>\<open>researcher\<close> and \<^verbatim>\<open>analyst\<close> and at most 3
  otherwise.
\<close>

definition best_sentences :: "env \<Rightarrow> pystr \<Rightarrow> pystr \<Rightarrow> pystr \<Rightarrow> pystr list" where
  "best_sentences E text persona job =
     (let scored =
            sorted_reverse snd
              (map (\<lambda>sentence. (sentence, calculate_semantic_relevance_multilingual E (Some sentence) persona job))
                 (sent_tokenize E text));
          limit = (if persona \<in> set [u ''researcher'', u ''analyst''] then 4 else 3)
      in take limit (map fst (filter (\<lambda>s. 20 < snd s) scored)))"

text \<open>
  The sections of a document in the words of the specification: for every page, the
  sections of its headings whose score (of the heading text followed by the associated
  content) is greater than 15, then the sections of its body blocks whose score is
  greater than 20. \<open>section_of_heading\<close> and \<open>section_of_body_block\<close> are the two
  dicts of \<^verbatim>\<open>extract_relevant_sections_multilingual\<close>.
\<close>

definition heading_score ::
  "env \<Rightarrow> document_content \<Rightarrow> page \<Rightarrow> text_block \<Rightarrow> pystr \<Rightarrow> pystr \<Rightarrow> real" where
  "heading_score E doc pg h persona job =
     calculate_semantic_relevance_multilingual E
       (Some (tb_text h @ u '' '' @
          find_associated_content h (body_text pg) (pages doc) (page_number pg)))
       persona job"

definition body_score :: "env \<Rightarrow> text_block \<Rightarrow> pystr \<Rightarrow> pystr \<Rightarrow> real" where
  "body_score E b persona job =
     calculate_semantic_relevance_multilingual E (Some (tb_text b)) persona job"

definition section_of_heading ::
  "env \<Rightarrow> document_content \<Rightarrow> page \<Rightarrow> pystr \<Rightarrow> pystr \<Rightarrow> text_block \<Rightarrow> entry" where
  "section_of_heading E doc pg persona job h =
     empty_dict\<lparr>
       document := Some (get_default (filename doc) (u ''Unknown'')),
       page := Some (page_number pg),
       section_title := Some (tb_text h),
       content := Some (find_associated_content h (body_text pg) (pages doc) (page_number pg)),
       relevance_score := Some (round2 (heading_score E doc pg h persona job)),
       font_size := Some (tb_font_size h),
       is_bold := Some (tb_is_bold h),
       language := Some (get_default (tb_language h) (u ''en''))\<rparr>"

definition section_of_body_block ::
  "env \<Rightarrow> document_content \<Rightarrow> page \<Rightarrow> pystr \<Rightarrow> pystr \<Rightarrow> text_block \<Rightarrow> entry" where
  "section_of_body_block E doc pg persona job b =
     empty_dict\<lparr>
       document := Some (get_default (filename doc) (u ''Unknown'')),
       page := Some (page_number pg),
       section_title := Some (u ''Content from page '' @ nat_str (page_number pg)),
       content := Some (tb_text b),
       relevance_score := Some (round2 (body_score E b persona job)),
       font_size := Some (tb_font_size b),
       is_bold := Some (tb_is_bold b),
       language := Some (get_default (tb_language b) (u ''en''))\<rparr>"

definition admitted_sections :: "env \<Rightarrow> document_content \<Rightarrow> pystr \<Rightarrow> pystr \<Rightarrow> entry list" where
  "admitted_sections E doc persona job =
     concat (map (\<lambda>pg.
       map (section_of_heading E doc pg persona job)
         (filter (\<lambda>h. 15 < heading_score E doc pg h persona job) (headings pg)) @
       map (section_of_body_block E doc pg persona job)
         (filter (\<lambda>b. 20 < body_score E b persona job) (body_text pg)))
       (pages doc))"

section \<open>The score\<close>

text \<open>
  Claim C1. For every text, persona and job, and whatever the collaborators answer, the
  score that \<^verbatim>\<open>calculate_semantic_relevance_multilingual\<close> returns lies between 0
  and 100: the sum of the four parts is clamped before it is returned.
\<close>

theorem score_between_0_and_100:
  "0 \<le> calculate_semantic_relevance_multilingual E text persona job \<and>
   calculate_semantic_relevance_multilingual E text persona job \<le> 100"
  by (simp add: calculate_semantic_relevance_multilingual_def Let_def split: option.split)

text \<open>
  Claim C2. For every persona and job, a text that is absent, empty, or shorter than 10
  characters once leading and trailing whitespace is stripped has score 0.
\<close>

theorem short_text_scores_zero:
  assumes "text = None \<or> text = Some [] \<or> (\<exists>t. text = Some t \<and> length (strip t) < 10)"
  shows "calculate_semantic_relevance_multilingual E text persona job = 0"
  using assms by (auto simp: calculate_semantic_relevance_multilingual_def)

theorem short_text_scores_zero_witness:
  "length (strip (u ''  too short  '')) < 10 \<and>
   calculate_semantic_relevance_multilingual english_env (Some (u ''  too short  ''))
     (u ''researcher'') (u ''literature_review'') = 0"
proof -
  have short: "length (strip (u ''  too short  '')) < 10"
    by (simp add: strip_def u_def isspace_def)
  then show ?thesis
    using short_text_scores_zero [of "Some (u ''  too short  '')" english_env
        "u ''researcher''" "u ''literature_review''"]
    by blast
qed

section \<open>The keyword table\<close>

lemma map_of_dict_update:
  "distinct (map fst e) \<Longrightarrow> map_of (dict_update d e) = map_of d ++ map_of e"
  unfolding dict_update_def
proof (induction e arbitrary: d)
  case Nil
  then show ?case by simp
next
  case (Cons p e)
  obtain k v where p: "p = (k, v)" by (cases p)
  from Cons.prems p have notin: "k \<notin> dom (map_of e)" and dist: "distinct (map fst e)"
    by (auto simp: dom_map_of_conv_image_fst)
  have "map_of (fold (\<lambda>(k, v). AList.update k v) (p # e) d)
        = map_of (AList.update k v d) ++ map_of e"
    using Cons.IH [OF dist] p by simp
  also have "\<dots> = (map_of d ++ map_of e)(k \<mapsto> v)"
    using notin by (simp add: update_conv' map_add_upd_left)
  also have "\<dots> = map_of d ++ map_of (p # e)"
    using p by simp
  finally show ?case .
qed

lemma distinct_dict_update:
  "distinct (map fst d) \<Longrightarrow> distinct (map fst (dict_update d e))"
  unfolding dict_update_def
  by (induction e arbitrary: d) (auto simp: distinct_update)

lemma dict_get_cases: "dict_get d k v = v \<or> dict_get d k v \<in> snd ` set d"
  by (auto simp: dict_get_def split: option.splits dest: map_of_SomeD intro: rev_image_eqI)

lemma keyword_tables_distinct: "list_all (\<lambda>table. distinct (map fst table)) keyword_tables"
  by (simp add: keyword_tables_def PERSONA_KNOWLEDGE_def JOB_PATTERNS_def researcher_profile_def
      student_profile_def analyst_profile_def literature_review_profile_def
      exam_preparation_profile_def u_def)

lemma language_table_dict_get:
  "map_of (dict_get tables lang (dict_get tables (u ''en'') [])) = language_table tables lang"
  by (simp add: dict_get_def language_table_def split: option.split)

lemma dict_get_distinct:
  assumes "list_all (\<lambda>table. distinct (map fst table)) (map snd tables)"
  shows "distinct (map fst (dict_get tables lang (dict_get tables (u ''en'') [])))"
proof -
  have tables: "\<And>table. table \<in> snd ` set tables \<Longrightarrow> distinct (map fst table)"
    using assms by (auto simp: list_all_iff)
  have step: "distinct (map fst (dict_get tables k v))" if "distinct (map fst v)" for k v
    using dict_get_cases [of tables k v] that tables by auto
  show ?thesis by (intro step) simp
qed

lemma keyword_tables_set:
  "set keyword_tables =
     (\<Union>x\<in>set PERSONA_KNOWLEDGE. snd ` set (p_keywords (snd x))) \<union>
     (\<Union>x\<in>set JOB_PATTERNS. snd ` set (j_keywords (snd x)))"
  by (simp add: keyword_tables_def case_prod_unfold)

lemma persona_tables_distinct:
  "list_all (\<lambda>table. distinct (map fst table))
     (map snd (case map_of PERSONA_KNOWLEDGE persona of None \<Rightarrow> [] | Some p \<Rightarrow> p_keywords p))"
proof (cases "map_of PERSONA_KNOWLEDGE persona")
  case None
  then show ?thesis by simp
next
  case (Some p)
  then have "(persona, p) \<in> set PERSONA_KNOWLEDGE" by (rule map_of_SomeD)
  then have "snd ` set (p_keywords p) \<subseteq> set keyword_tables"
    unfolding keyword_tables_set by force
  moreover have "\<forall>table\<in>set keyword_tables. distinct (map fst table)"
    using keyword_tables_distinct by (simp only: list_all_iff)
  ultimately have "\<forall>table\<in>snd ` set (p_keywords p). distinct (map fst table)"
    by blast
  then show ?thesis by (simp add: Some list_all_iff)
qed

lemma job_tables_distinct:
  "list_all (\<lambda>table. distinct (map fst table))
     (map snd (case map_of JOB_PATTERNS job of None \<Rightarrow> [] | Some j \<Rightarrow> j_keywords j))"
proof (cases "map_of JOB_PATTERNS job")
  case None
  then show ?thesis by simp
next
  case (Some j)
  then have "(job, j) \<in> set JOB_PATTERNS" by (rule map_of_SomeD)
  then have "snd ` set (j_keywords j) \<subseteq> set keyword_tables"
    unfolding keyword_tables_set by force
  moreover have "\<forall>table\<in>set keyword_tables. distinct (map fst table)"
    using keyword_tables_distinct by (simp only: list_all_iff)
  ultimately have "\<forall>table\<in>snd ` set (j_keywords j). distinct (map fst table)"
    by blast
  then show ?thesis by (simp add: Some list_all_iff)
qed

text \<open>
  Claim C8. For every persona, job and language, the dict that
  \<^verbatim>\<open>get_keywords_for_language\<close> returns maps the keywords as the merged table of
  the specification does: the persona's map for the language (its English map when the
  language is absent) combined with the job's map (same fallback), the job's weight
  taking precedence on a shared keyword. Each keyword occurs once in it.
\<close>

theorem keywords_are_merged_table:
  "map_of (get_keywords_for_language persona job lang) = merged_keyword_table persona job lang \<and>
   distinct (map fst (get_keywords_for_language persona job lang))"
proof -
  let ?pk = "case map_of PERSONA_KNOWLEDGE persona of None \<Rightarrow> [] | Some p \<Rightarrow> p_keywords p"
  let ?jk = "case map_of JOB_PATTERNS job of None \<Rightarrow> [] | Some j \<Rightarrow> j_keywords j"
  let ?pl = "dict_get ?pk lang (dict_get ?pk (u ''en'') [])"
  let ?jl = "dict_get ?jk lang (dict_get ?jk (u ''en'') [])"
  have eq: "get_keywords_for_language persona job lang = dict_update (dict_update [] ?pl) ?jl"
    by (simp add: get_keywords_for_language_def Let_def)
  have dp: "distinct (map fst ?pl)"
    by (rule dict_get_distinct [OF persona_tables_distinct])
  have dj: "distinct (map fst ?jl)"
    by (rule dict_get_distinct [OF job_tables_distinct])
  have "map_of (dict_update (dict_update [] ?pl) ?jl) = map_of ?pl ++ map_of ?jl"
    by (simp add: map_of_dict_update [OF dj] map_of_dict_update [OF dp])
  also have "\<dots> = merged_keyword_table persona job lang"
    by (simp add: merged_keyword_table_def language_table_dict_get map_add_def fun_eq_iff
        split: option.split)
  finally have "map_of (get_keywords_for_language persona job lang) = merged_keyword_table persona job lang"
    using eq by simp
  moreover have "distinct (map fst (get_keywords_for_language persona job lang))"
    unfolding eq by (intro distinct_dict_update) simp
  ultimately show ?thesis by blast
qed

section \<open>The language detector\<close>

text \<open>
  Claim C7, as amended. For every text that is absent, empty, or shorter than 10
  characters once leading and trailing whitespace is stripped, the detector returns
  \<^verbatim>\<open>en\<close> and calls no detection strategy.
\<close>

theorem short_text_is_english:
  assumes "text = None \<or> text = Some [] \<or> (\<exists>t. text = Some t \<and> length (strip t) < 10)"
  shows "detect_language_calls E text = (u ''en'', []) \<and> detect_language E text = u ''en''"
  using assms by (auto simp: detect_language_calls_def detect_language_def)

theorem short_text_is_english_witness:
  "length (strip (u ''  too short  '')) < 10 \<and>
   detect_language_calls english_env (Some (u ''  too short  '')) = (u ''en'', []) \<and>
   detect_language english_env (Some (u ''  too short  '')) = u ''en''"
proof -
  have short: "length (strip (u ''  too short  '')) < 10"
    by (simp add: strip_def u_def isspace_def)
  then show ?thesis
    using short_text_is_english [of "Some (u ''  too short  '')" english_env]
    by blast
qed

text \<open>
  Claim C7 as stated counts the characters that are not whitespace. The text
  \<^verbatim>\<open>a b c d e f\<close> has 6 of them and 11 characters after stripping, so the
  detector goes on to its strategies; with neither package installed the pattern
  matcher runs and answers \<^verbatim>\<open>hi\<close>.
\<close>

lemma spaced_letters_strip: "length (strip (u ''a b c d e f'')) = 11"
  by (simp add: strip_def isspace_def u_def)

lemma spaced_letters_pattern: "pattern_based_detection offline_env (u ''a b c d e f'') = u ''hi''"
  by (simp add: pattern_based_detection_def lower_def lower_latin1_def offline_env_def
      LANGUAGE_PATTERNS_def ascii_letter_def isspace_def u_def)

lemma spaced_letters_count: "non_whitespace_count (u ''a b c d e f'') = 6"
  by (simp add: non_whitespace_count_def isspace_def u_def)

theorem few_non_whitespace_characters_counterexample:
  "non_whitespace_count (u ''a b c d e f'') < 10 \<and>
   detect_language_calls offline_env (Some (u ''a b c d e f'')) = (u ''hi'', [Pattern_based])"
proof -
  have "u ''a b c d e f'' \<noteq> []" by (simp add: u_def)
  moreover have "langdetect offline_env = None" "langid offline_env = None"
    by (simp_all add: offline_env_def)
  ultimately show ?thesis
    by (simp add: detect_language_calls_def detect_after_langdetect_def spaced_letters_strip
        spaced_letters_pattern spaced_letters_count)
qed

section \<open>The methodology scenario\<close>

lemma methodology_text_lower: "lower E methodology_text = methodology_lower"
  by (simp add: lower_def methodology_text_def methodology_lower_def u_def lower_latin1_def)

lemma methodology_text_length: "length methodology_text = 102"
  by (simp add: methodology_text_def u_def)

lemma methodology_text_strip: "strip methodology_text = methodology_text"
  by (simp add: strip_def methodology_text_def u_def isspace_def)

lemma keywords_en:
  "get_keywords_for_language (u ''researcher'') (u ''literature_review'') (u ''en'')
   = researcher_review_keywords"
  by (simp add: get_keywords_for_language_def PERSONA_KNOWLEDGE_def JOB_PATTERNS_def
      researcher_profile_def literature_review_profile_def dict_get_def dict_update_def
      researcher_review_keywords_def u_def)

lemma keywords_hi:
  "get_keywords_for_language (u ''researcher'') (u ''literature_review'') (u ''hi'')
   = researcher_review_keywords"
  by (simp add: get_keywords_for_language_def PERSONA_KNOWLEDGE_def JOB_PATTERNS_def
      researcher_profile_def literature_review_profile_def dict_get_def dict_update_def
      researcher_review_keywords_def u_def)

lemma methodology_keyword_component:
  "keyword_component researcher_review_keywords methodology_lower = 44 / 9"
  by (simp add: keyword_component_def researcher_review_keywords_def methodology_lower_def u_def)

lemma methodology_structure_en:
  "calculate_structure_score methodology_lower (u ''en'') = 5"
  by (simp add: calculate_structure_score_def SECTION_KEYWORDS_def dict_get_def
      methodology_lower_def u_def)

lemma methodology_structure_hi:
  "calculate_structure_score methodology_lower (u ''hi'') = 0"
  by (simp add: calculate_structure_score_def SECTION_KEYWORDS_def dict_get_def
      methodology_lower_def u_def)

lemma methodology_pattern:
  "pattern_based_detection offline_env methodology_text = u ''hi''"
  by (simp add: pattern_based_detection_def lower_def methodology_text_def u_def lower_latin1_def
      offline_env_def LANGUAGE_PATTERNS_def ascii_letter_def isspace_def)


lemma methodology_not_short: "methodology_text \<noteq> [] \<and> \<not> length (strip methodology_text) < 10"
  using methodology_text_length by (auto simp: methodology_text_strip)

lemma methodology_quality_en:
  "calculate_quality_score E methodology_text (u ''en'') (u ''researcher'')
   = 7 + (if 1 \<le> length (sent_tokenize E methodology_text) \<and>
             length (sent_tokenize E methodology_text) \<le> 5 then 3 else 0)"
  by (simp add: calculate_quality_score_def methodology_text_length methodology_text_lower
      TECHNICAL_TERMS_def dict_get_def methodology_lower_def u_def Let_def)

lemma methodology_quality_hi:
  "calculate_quality_score E methodology_text (u ''hi'') (u ''researcher'')
   = 5 + (if 1 \<le> length (sent_tokenize E methodology_text) \<and>
             length (sent_tokenize E methodology_text) \<le> 5 then 3 else 0)"
  by (simp add: calculate_quality_score_def methodology_text_length methodology_text_lower
      TECHNICAL_TERMS_def dict_get_def methodology_lower_def u_def Let_def)

lemma methodology_offline_language:
  "detect_language offline_env (Some methodology_text) = u ''hi''"
proof -
  have "langdetect offline_env = None" "langid offline_env = None"
    by (simp_all add: offline_env_def)
  then show ?thesis
    using methodology_not_short
    by (simp add: detect_language_def detect_language_calls_def detect_after_langdetect_def
        methodology_pattern)
qed

lemma methodology_offline_score:
  "calculate_semantic_relevance_multilingual offline_env (Some methodology_text)
     (u ''researcher'') (u ''literature_review'') = 116 / 9"
proof -
  have model: "sentence_model offline_env = None"
    and sentences: "sent_tokenize offline_env methodology_text = [methodology_text]"
    by (simp_all add: offline_env_def)
  show ?thesis
    using methodology_not_short
    by (simp add: calculate_semantic_relevance_multilingual_def methodology_offline_language
        methodology_text_lower keywords_hi methodology_keyword_component
        methodology_structure_hi methodology_quality_hi semantic_component_def model sentences)
qed

text \<open>
  When the language detector answers \<^verbatim>\<open>en\<close> for the text, as the two language
  identification packages do for English prose, and the embedding part adds nothing,
  the keyword part is positive, the structure part is 5 and the score is greater than
  15; \<open>english_env\<close> is such an environment.
\<close>

lemma methodology_scenario_english:
  assumes "detect_language E (Some methodology_text) = u ''en''"
    and "semantic_component E methodology_text (u ''researcher'') (u ''literature_review'')
           (get_keywords_for_language (u ''researcher'') (u ''literature_review'') (u ''en'')) = 0"
  shows "0 < keyword_component
               (get_keywords_for_language (u ''researcher'') (u ''literature_review'') (u ''en''))
               (lower E methodology_text) \<and>
         calculate_structure_score (lower E methodology_text) (u ''en'') = 5 \<and>
         15 < calculate_semantic_relevance_multilingual E (Some methodology_text)
                (u ''researcher'') (u ''literature_review'')"
proof -
  have "calculate_semantic_relevance_multilingual E (Some methodology_text)
          (u ''researcher'') (u ''literature_review'')
        = min 100 (max 0 (44 / 9 + 0 + 5
            + real_of_int (calculate_quality_score E methodology_text (u ''en'') (u ''researcher''))))"
    using methodology_not_short assms
    by (simp add: calculate_semantic_relevance_multilingual_def methodology_text_lower
        keywords_en methodology_keyword_component methodology_structure_en)
  then have "15 < calculate_semantic_relevance_multilingual E (Some methodology_text)
                (u ''researcher'') (u ''literature_review'')"
    by (simp add: methodology_quality_en)
  then show ?thesis
    by (simp add: methodology_text_lower keywords_en methodology_keyword_component
        methodology_structure_en)
qed

lemma methodology_scenario_english_env:
  "detect_language english_env (Some methodology_text) = u ''en'' \<and>
   semantic_component english_env methodology_text (u ''researcher'') (u ''literature_review'')
     (get_keywords_for_language (u ''researcher'') (u ''literature_review'') (u ''en'')) = 0 \<and>
   0 < keyword_component
         (get_keywords_for_language (u ''researcher'') (u ''literature_review'') (u ''en''))
         (lower english_env methodology_text) \<and>
   calculate_structure_score (lower english_env methodology_text) (u ''en'') = 5 \<and>
   15 < calculate_semantic_relevance_multilingual english_env (Some methodology_text)
          (u ''researcher'') (u ''literature_review'')"
proof -
  have language: "detect_language english_env (Some methodology_text) = u ''en''"
    using methodology_not_short
    by (simp add: detect_language_def detect_language_calls_def english_env_def offline_env_def)
  have semantic: "semantic_component english_env methodology_text (u ''researcher'')
      (u ''literature_review'')
      (get_keywords_for_language (u ''researcher'') (u ''literature_review'') (u ''en'')) = 0"
    by (simp add: semantic_component_def english_env_def offline_env_def)
  show ?thesis
    using methodology_scenario_english [OF language semantic] language semantic by blast
qed

text \<open>
  Claim C9 says that for the text \<open>methodology_text\<close>, the persona
  \<^verbatim>\<open>researcher\<close> and the job \<^verbatim>\<open>literature_review\<close>, with nothing from the
  embedding model, the keyword part is positive, the structure part gains 5 for the
  token \<^verbatim>\<open>methodology\<close> and the score is greater than 15. With neither language
  identification package installed the program does otherwise: the pattern matcher
  answers \<^verbatim>\<open>hi\<close> for this English text (every character class contains whitespace
  and the text has 12 runs of it, against 2 runs of Latin letters and spaces), the
  section names looked for are the Devanagari ones, the structure part is 0 and the
  score is 116/9, below 15. The keyword part is 44/9, as the claim expects.
\<close>

theorem methodology_scenario_offline:
  "detect_language offline_env (Some methodology_text) = u ''hi'' \<and>
   keyword_component
     (get_keywords_for_language (u ''researcher'') (u ''literature_review'')
        (detect_language offline_env (Some methodology_text)))
     (lower offline_env methodology_text) = 44 / 9 \<and>
   semantic_component offline_env methodology_text (u ''researcher'') (u ''literature_review'')
     (get_keywords_for_language (u ''researcher'') (u ''literature_review'')
        (detect_language offline_env (Some methodology_text))) = 0 \<and>
   calculate_structure_score (lower offline_env methodology_text)
     (detect_language offline_env (Some methodology_text)) = 0 \<and>
   calculate_semantic_relevance_multilingual offline_env (Some methodology_text)
     (u ''researcher'') (u ''literature_review'') = 116 / 9"
proof -
  have "sentence_model offline_env = None" by (simp add: offline_env_def)
  then show ?thesis
    by (simp add: semantic_component_def methodology_offline_language methodology_text_lower
        keywords_hi methodology_keyword_component methodology_structure_hi
        methodology_offline_score)
qed

section \<open>Ranking and filtering\<close>

text \<open>The descending sort is stable, gives a descending list and leaves one alone.\<close>

lemma sorted_reverse_stable:
  "filter (\<lambda>y. key y = k) (sorted_reverse key xs) = filter (\<lambda>y. key y = k) xs"
proof -
  have "filter (\<lambda>y. key y = k) (sorted_reverse key xs)
        = rev (filter (\<lambda>y. key y = k) (sort_key key (rev xs)))"
    by (simp add: sorted_reverse_def rev_filter)
  also have "\<dots> = rev (filter (\<lambda>y. key y = k) (rev xs))"
    by (simp only: sort_key_stable)
  also have "\<dots> = filter (\<lambda>y. key y = k) xs"
    by (simp add: rev_filter)
  finally show ?thesis .
qed

lemma sorted_reverse_descending:
  "sorted_wrt (\<lambda>x y. key y \<le> key x) (sorted_reverse key xs)"
proof -
  have "sorted (map key (sort_key key (rev xs)))" by (rule sorted_sort_key)
  then have "sorted_wrt (\<lambda>x y. key x \<le> key y) (sort_key key (rev xs))"
    by (simp add: sorted_wrt_map)
  then show ?thesis
    by (simp add: sorted_reverse_def sorted_wrt_rev)
qed

lemma sorted_reverse_id:
  assumes "sorted_wrt (\<lambda>x y. key y \<le> key x) xs"
  shows "sorted_reverse key xs = xs"
proof -
  from assms have "sorted_wrt (\<lambda>x y. key x \<le> key y) (rev xs)"
    by (simp add: sorted_wrt_rev)
  then have "sorted (map key (rev xs))"
    by (simp add: sorted_wrt_map)
  then have "sort_key key (rev xs) = rev xs"
    by (rule sort_key_id_if_sorted)
  then show ?thesis by (simp add: sorted_reverse_def)
qed

lemma set_sorted_reverse: "set (sorted_reverse key xs) = set xs"
  by (simp add: sorted_reverse_def)

text \<open>One pass of sorting, filtering and truncating, and what it does to its own output.\<close>

lemma top_descending:
  "sorted_wrt (\<lambda>x y. key y \<le> key x) (take n (filter P (sorted_reverse key xs)))"
  by (intro sorted_wrt_take sorted_wrt_filter sorted_reverse_descending)

lemma top_idempotent:
  "take n (filter P (sorted_reverse key (take n (filter P (sorted_reverse key xs)))))
   = take n (filter P (sorted_reverse key xs))"
proof -
  let ?top = "take n (filter P (sorted_reverse key xs))"
  have "sorted_reverse key ?top = ?top"
    by (rule sorted_reverse_id [OF top_descending])
  moreover have "filter P ?top = ?top"
    by (auto simp: filter_id_conv dest: in_set_takeD)
  moreover have "take n ?top = ?top"
    by simp
  ultimately show ?thesis by simp
qed

lemma top_stable:
  "subseq (filter (\<lambda>y. key y = k) (take n (filter P (sorted_reverse key xs))))
          (filter (\<lambda>y. key y = k) xs)"
proof -
  have "subseq (take n (filter P (sorted_reverse key xs))) (sorted_reverse key xs)"
    by (meson prefix_imp_subseq take_is_prefix subseq_filter_left subseq_order.order_trans)
  then have "subseq (filter (\<lambda>y. key y = k) (take n (filter P (sorted_reverse key xs))))
                    (filter (\<lambda>y. key y = k) (sorted_reverse key xs))"
    by (rule subseq_filter)
  then show ?thesis by (simp only: sorted_reverse_stable)
qed

lemma sorted_by_relevance_Inr:
  assumes "sorted_by_relevance xs = Inr ys"
  shows "list_all (\<lambda>x. relevance_score x \<noteq> None) xs"
    and "ys = sorted_reverse (\<lambda>x. get_default (relevance_score x) 0) xs"
  using assms by (auto simp: sorted_by_relevance_def split: if_splits)

lemma rank_Inr:
  assumes "rank_and_filter_results_advanced secs subs = Inr (top_sections, top_subsections)"
  shows "list_all (\<lambda>x. relevance_score x \<noteq> None) secs"
    and "list_all (\<lambda>x. relevance_score x \<noteq> None) subs"
    and "top_sections = take 10 (filter
           (\<lambda>x. 50 \<le> length (get_default (content x) []) \<and> length (get_default (content x) []) \<le> 2000)
           (sorted_reverse (\<lambda>x. get_default (relevance_score x) 0) secs))"
    and "top_subsections = take 15 (filter
           (\<lambda>x. 30 \<le> length (get_default (refined_text x) []) \<and>
                 length (get_default (refined_text x) []) \<le> 1000)
           (sorted_reverse (\<lambda>x. get_default (relevance_score x) 0) subs))"
  using assms
  by (auto simp: rank_and_filter_results_advanced_def Let_def
      dest: sorted_by_relevance_Inr split: sum.splits)

lemma score_filter:
  assumes "list_all (\<lambda>x. relevance_score x \<noteq> None) xs"
  shows "filter (\<lambda>x. relevance_score x = Some k) xs
         = filter (\<lambda>x. get_default (relevance_score x) 0 = k) xs"
  using assms by (induction xs) (auto simp: get_default_def)

lemma sample_rank:
  "rank_and_filter_results_advanced
     [sample_entry (u ''a'') 30, sample_entry (u ''b'') 50, sample_entry (u ''c'') 30]
     [sample_entry (u ''d'') 10, sample_entry (u ''e'') 10]
   = Inr ([sample_entry (u ''b'') 50, sample_entry (u ''a'') 30, sample_entry (u ''c'') 30],
          [sample_entry (u ''d'') 10, sample_entry (u ''e'') 10])"
  by (simp add: rank_and_filter_results_advanced_def sorted_by_relevance_def sorted_reverse_def
      sample_entry_def empty_dict_def get_default_def Let_def)


text \<open>
  Claim C4. Whenever the ranking returns (no dict lacks its score), the sections and
  the subsections it returns are in descending order of score, and for every score the
  returned entries with that score appear in the order they had in the input: they
  are a subsequence of the input entries with that score.
\<close>

theorem ranking_is_descending_and_stable:
  assumes "rank_and_filter_results_advanced secs subs = Inr (top_sections, top_subsections)"
  shows "sorted_wrt (\<lambda>x y. get_default (relevance_score y) 0 \<le> get_default (relevance_score x) 0)
           top_sections \<and>
         sorted_wrt (\<lambda>x y. get_default (relevance_score y) 0 \<le> get_default (relevance_score x) 0)
           top_subsections \<and>
         (\<forall>k. subseq (filter (\<lambda>x. relevance_score x = Some k) top_sections)
                      (filter (\<lambda>x. relevance_score x = Some k) secs)) \<and>
         (\<forall>k. subseq (filter (\<lambda>x. relevance_score x = Some k) top_subsections)
                      (filter (\<lambda>x. relevance_score x = Some k) subs))"
proof -
  note r = rank_Inr [OF assms]
  have some: "list_all (\<lambda>x. relevance_score x \<noteq> None) top_sections"
    "list_all (\<lambda>x. relevance_score x \<noteq> None) top_subsections"
    using r by (auto simp: list_all_iff set_sorted_reverse dest!: in_set_takeD)
  have "sorted_wrt (\<lambda>x y. get_default (relevance_score y) 0 \<le> get_default (relevance_score x) 0)
          top_sections"
    unfolding r(3) by (rule top_descending)
  moreover have "sorted_wrt (\<lambda>x y. get_default (relevance_score y) 0 \<le> get_default (relevance_score x) 0)
          top_subsections"
    unfolding r(4) by (rule top_descending)
  moreover have "subseq (filter (\<lambda>x. relevance_score x = Some k) top_sections)
                        (filter (\<lambda>x. relevance_score x = Some k) secs)" for k
    unfolding score_filter [OF some(1)] score_filter [OF r(1)]
    unfolding r(3) by (rule top_stable)
  moreover have "subseq (filter (\<lambda>x. relevance_score x = Some k) top_subsections)
                        (filter (\<lambda>x. relevance_score x = Some k) subs)" for k
    unfolding score_filter [OF some(2)] score_filter [OF r(2)]
    unfolding r(4) by (rule top_stable)
  ultimately show ?thesis by blast
qed

theorem ranking_is_descending_and_stable_witness:
  "rank_and_filter_results_advanced
     [sample_entry (u ''a'') 30, sample_entry (u ''b'') 50, sample_entry (u ''c'') 30]
     [sample_entry (u ''d'') 10, sample_entry (u ''e'') 10]
   = Inr ([sample_entry (u ''b'') 50, sample_entry (u ''a'') 30, sample_entry (u ''c'') 30],
          [sample_entry (u ''d'') 10, sample_entry (u ''e'') 10]) \<and>
   (\<forall>k. subseq
      (filter (\<lambda>x. relevance_score x = Some k)
         [sample_entry (u ''b'') 50, sample_entry (u ''a'') 30, sample_entry (u ''c'') 30])
      (filter (\<lambda>x. relevance_score x = Some k)
         [sample_entry (u ''a'') 30, sample_entry (u ''b'') 50, sample_entry (u ''c'') 30]))"
  using ranking_is_descending_and_stable [OF sample_rank] sample_rank by blast

text \<open>
  Claim C5. Whenever the ranking returns, ranking the lists it returned gives the same
  two lists again: the sort, the length filters and the caps of 10 sections and 15
  subsections leave its own output as it is.
\<close>

theorem ranking_is_idempotent:
  assumes "rank_and_filter_results_advanced secs subs = Inr (top_sections, top_subsections)"
  shows "rank_and_filter_results_advanced top_sections top_subsections
         = Inr (top_sections, top_subsections)"
proof -
  note r = rank_Inr [OF assms]
  have some: "list_all (\<lambda>x. relevance_score x \<noteq> None) top_sections"
    "list_all (\<lambda>x. relevance_score x \<noteq> None) top_subsections"
    using r by (auto simp: list_all_iff set_sorted_reverse dest!: in_set_takeD)
  have "take 10 (filter
           (\<lambda>x. 50 \<le> length (get_default (content x) []) \<and> length (get_default (content x) []) \<le> 2000)
           (sorted_reverse (\<lambda>x. get_default (relevance_score x) 0) top_sections)) = top_sections"
    unfolding r(3) by (rule top_idempotent)
  moreover have "take 15 (filter
           (\<lambda>x. 30 \<le> length (get_default (refined_text x) []) \<and>
                 length (get_default (refined_text x) []) \<le> 1000)
           (sorted_reverse (\<lambda>x. get_default (relevance_score x) 0) top_subsections)) = top_subsections"
    unfolding r(4) by (rule top_idempotent)
  ultimately show ?thesis
    using some by (simp add: rank_and_filter_results_advanced_def sorted_by_relevance_def Let_def)
qed

theorem ranking_is_idempotent_witness:
  "rank_and_filter_results_advanced
     [sample_entry (u ''a'') 30, sample_entry (u ''b'') 50, sample_entry (u ''c'') 30]
     [sample_entry (u ''d'') 10, sample_entry (u ''e'') 10]
   = Inr ([sample_entry (u ''b'') 50, sample_entry (u ''a'') 30, sample_entry (u ''c'') 30],
          [sample_entry (u ''d'') 10, sample_entry (u ''e'') 10]) \<and>
   rank_and_filter_results_advanced
     [sample_entry (u ''b'') 50, sample_entry (u ''a'') 30, sample_entry (u ''c'') 30]
     [sample_entry (u ''d'') 10, sample_entry (u ''e'') 10]
   = Inr ([sample_entry (u ''b'') 50, sample_entry (u ''a'') 30, sample_entry (u ''c'') 30],
          [sample_entry (u ''d'') 10, sample_entry (u ''e'') 10])"
  using ranking_is_idempotent [OF sample_rank] sample_rank by blast

section \<open>Content refinement\<close>

lemma filter_take_descending:
  fixes xs :: "('a \<times> real) list"
  assumes "sorted_wrt (\<lambda>x y. snd y \<le> snd x) xs"
  shows "filter (\<lambda>s. t < snd s) (take n xs) = take n (filter (\<lambda>s. t < snd s) xs)"
  using assms
proof (induction xs arbitrary: n)
  case Nil
  then show ?case by simp
next
  case (Cons p ps)
  show ?case
  proof (cases n)
    case 0
    then show ?thesis by simp
  next
    case (Suc m)
    show ?thesis
    proof (cases "t < snd p")
      case True
      with Cons Suc show ?thesis by simp
    next
      case False
      with Cons.prems have "\<forall>q\<in>set ps. \<not> t < snd q" by auto
      then have "filter (\<lambda>s. t < snd s) ps = []" "filter (\<lambda>s. t < snd s) (take m ps) = []"
        by (auto simp: filter_empty_conv dest: in_set_takeD)
      with False Suc show ?thesis by simp
    qed
  qed
qed

lemma join_not_empty:
  assumes "xs \<noteq> []" and "list_all (\<lambda>x. x \<noteq> []) xs"
  shows "join sep xs \<noteq> []"
proof (cases xs)
  case Nil
  with assms show ?thesis by simp
next
  case (Cons x rest)
  with assms show ?thesis by (cases rest) auto
qed

lemma scored_sentence_not_empty:
  assumes "20 < calculate_semantic_relevance_multilingual E (Some s) persona job"
  shows "s \<noteq> []"
  using assms by (auto simp: calculate_semantic_relevance_multilingual_def)

lemma selected_is_best:
  "map fst (filter (\<lambda>s. 20 < snd s)
      (take (if persona \<in> set [u ''researcher'', u ''analyst''] then 4 else 3)
        (sorted_reverse snd
          (map (\<lambda>sentence. (sentence, calculate_semantic_relevance_multilingual E (Some sentence) persona job))
             (sent_tokenize E text)))))
   = best_sentences E text persona job"
  by (simp add: best_sentences_def Let_def take_map
      filter_take_descending [OF sorted_reverse_descending])

lemma refine_eq:
  "refine_content_for_persona E text persona job =
     (if best_sentences E text persona job = [] then take 300 text
      else join (u '' '') (best_sentences E text persona job))"
  unfolding refine_content_for_persona_def Let_def selected_is_best by simp

lemma best_sentences_scores:
  "list_all (\<lambda>s. s \<in> set (sent_tokenize E text) \<and>
                  20 < calculate_semantic_relevance_multilingual E (Some s) persona job)
     (best_sentences E text persona job)"
  by (auto simp: best_sentences_def Let_def list_all_iff set_sorted_reverse dest!: in_set_takeD)

text \<open>
  Claim C6. Content refinement joins the best sentences with single spaces, and falls
  back to the first 300 characters of the content when there is none; for a content
  that is not empty the result is not empty; and when no sentence has a score above
  20 the result is the first 300 characters of the content.
\<close>

theorem refinement_keeps_content:
  "refine_content_for_persona E text persona job =
     (if best_sentences E text persona job = [] then take 300 text
      else join (u '' '') (best_sentences E text persona job)) \<and>
   (text \<noteq> [] \<longrightarrow> refine_content_for_persona E text persona job \<noteq> []) \<and>
   (list_all (\<lambda>s. calculate_semantic_relevance_multilingual E (Some s) persona job \<le> 20)
      (sent_tokenize E text) \<longrightarrow>
    refine_content_for_persona E text persona job = take 300 text)"
proof -
  have nonempty: "refine_content_for_persona E text persona job \<noteq> []" if "text \<noteq> []"
  proof (cases "best_sentences E text persona job = []")
    case True
    with that show ?thesis by (simp add: refine_eq)
  next
    case False
    have "list_all (\<lambda>x. x \<noteq> []) (best_sentences E text persona job)"
      using best_sentences_scores [of E "text" persona job]
      by (auto simp: list_all_iff dest: scored_sentence_not_empty)
    with False show ?thesis by (simp add: refine_eq join_not_empty)
  qed
  have fallback: "refine_content_for_persona E text persona job = take 300 text"
    if "list_all (\<lambda>s. calculate_semantic_relevance_multilingual E (Some s) persona job \<le> 20)
          (sent_tokenize E text)"
  proof -
    have "best_sentences E text persona job = []"
    proof (rule ccontr)
      assume "best_sentences E text persona job \<noteq> []"
      then obtain s where "s \<in> set (best_sentences E text persona job)"
        by (cases "best_sentences E text persona job") auto
      with best_sentences_scores [of E "text" persona job] that show False
        by (fastforce simp: list_all_iff)
    qed
    then show ?thesis by (simp add: refine_eq)
  qed
  show ?thesis using refine_eq nonempty fallback by blast
qed

theorem refinement_keeps_content_witness:
  "methodology_text \<noteq> [] \<and>
   list_all (\<lambda>s. calculate_semantic_relevance_multilingual offline_env (Some s)
                (u ''researcher'') (u ''literature_review'') \<le> 20)
     (sent_tokenize offline_env methodology_text) \<and>
   refine_content_for_persona offline_env methodology_text
     (u ''researcher'') (u ''literature_review'') \<noteq> [] \<and>
   refine_content_for_persona offline_env methodology_text
     (u ''researcher'') (u ''literature_review'') = take 300 methodology_text"
proof -
  have content: "methodology_text \<noteq> []"
    using methodology_not_short by blast
  have "sent_tokenize offline_env methodology_text = [methodology_text]"
    by (simp add: offline_env_def)
  then have scores:
    "list_all (\<lambda>s. calculate_semantic_relevance_multilingual offline_env (Some s)
                 (u ''researcher'') (u ''literature_review'') \<le> 20)
       (sent_tokenize offline_env methodology_text)"
    by (simp add: methodology_offline_score)
  show ?thesis
    using refinement_keeps_content [of offline_env methodology_text
        "u ''researcher''" "u ''literature_review''"] content scores
    by blast
qed

section \<open>Admission of sections\<close>

text \<open>
  The loop bodies in terms of the scores, and the two loops: while the time limit
  holds a loop keeps every section its body builds, and in any case what it keeps is
  a subsequence of those.
\<close>

lemma heading_section_eq:
  "heading_section E doc pg h persona job =
     (if 15 < heading_score E doc pg h persona job
      then Some (section_of_heading E doc pg persona job h) else None)"
  by (simp add: heading_section_def heading_score_def section_of_heading_def Let_def)

lemma body_section_eq:
  "body_section E doc pg b persona job =
     (if 20 < body_score E b persona job
      then Some (section_of_body_block E doc pg persona job b) else None)"
  by (simp add: body_section_def body_score_def section_of_body_block_def Let_def)

lemma map_filter_if:
  "List.map_filter (\<lambda>x. if P x then Some (f x) else None) xs = map f (filter P xs)"
  by (induction xs) (simp_all add: List.map_filter_simps)

lemma blocks_loop_in_time:
  assumes "\<forall>k. check_time_limit E k"
  shows "blocks_loop E body blocks n = (List.map_filter body blocks, n + length blocks)"
  using assms
  by (induction blocks arbitrary: n) (auto simp: List.map_filter_simps split: option.splits)

lemma blocks_loop_subseq:
  "subseq (fst (blocks_loop E body blocks n)) (List.map_filter body blocks)"
proof (induction blocks arbitrary: n)
  case Nil
  then show ?case by (simp add: List.map_filter_simps)
next
  case (Cons b rest)
  show ?case
  proof (cases "check_time_limit E n")
    case True
    then show ?thesis
      using Cons.IH [of "Suc n"]
      by (cases "body b") (simp_all add: List.map_filter_simps case_prod_unfold)
  next
    case False
    then show ?thesis by simp
  qed
qed

lemma page_sections:
  "List.map_filter (\<lambda>h. heading_section E doc pg h persona job) (headings pg) @
   List.map_filter (\<lambda>b. body_section E doc pg b persona job) (body_text pg)
   = map (section_of_heading E doc pg persona job)
       (filter (\<lambda>h. 15 < heading_score E doc pg h persona job) (headings pg)) @
     map (section_of_body_block E doc pg persona job)
       (filter (\<lambda>b. 20 < body_score E b persona job) (body_text pg))"
  by (simp add: heading_section_eq body_section_eq map_filter_if)

lemma pages_loop_in_time:
  assumes "\<forall>k. check_time_limit E k"
  shows "fst (pages_loop E doc persona job pgs n) =
         concat (map (\<lambda>pg.
           map (section_of_heading E doc pg persona job)
             (filter (\<lambda>h. 15 < heading_score E doc pg h persona job) (headings pg)) @
           map (section_of_body_block E doc pg persona job)
             (filter (\<lambda>b. 20 < body_score E b persona job) (body_text pg))) pgs)"
proof (induction pgs arbitrary: n)
  case Nil
  then show ?case by simp
next
  case (Cons pg rest)
  show ?case
    using page_sections [of E doc pg persona job]
    by (simp add: blocks_loop_in_time [OF assms] Cons.IH case_prod_unfold)
qed

lemma pages_loop_subseq:
  "subseq (fst (pages_loop E doc persona job pgs n))
     (concat (map (\<lambda>pg.
        map (section_of_heading E doc pg persona job)
          (filter (\<lambda>h. 15 < heading_score E doc pg h persona job) (headings pg)) @
        map (section_of_body_block E doc pg persona job)
          (filter (\<lambda>b. 20 < body_score E b persona job) (body_text pg))) pgs))"
proof (induction pgs arbitrary: n)
  case Nil
  then show ?case by simp
next
  case (Cons pg rest)
  let ?hs = "blocks_loop E (\<lambda>h. heading_section E doc pg h persona job) (headings pg) n"
  let ?bs = "blocks_loop E (\<lambda>b. body_section E doc pg b persona job) (body_text pg) (snd ?hs)"
  have "subseq (fst ?hs @ fst ?bs)
          (List.map_filter (\<lambda>h. heading_section E doc pg h persona job) (headings pg) @
           List.map_filter (\<lambda>b. body_section E doc pg b persona job) (body_text pg))"
    by (intro list_emb_append_mono blocks_loop_subseq)
  then have "subseq (fst ?hs @ fst ?bs)
          (map (section_of_heading E doc pg persona job)
             (filter (\<lambda>h. 15 < heading_score E doc pg h persona job) (headings pg)) @
           map (section_of_body_block E doc pg persona job)
             (filter (\<lambda>b. 20 < body_score E b persona job) (body_text pg)))"
    by (simp only: page_sections)
  then have "subseq ((fst ?hs @ fst ?bs) @ fst (pages_loop E doc persona job rest (snd ?bs)))
          ((map (section_of_heading E doc pg persona job)
             (filter (\<lambda>h. 15 < heading_score E doc pg h persona job) (headings pg)) @
           map (section_of_body_block E doc pg persona job)
             (filter (\<lambda>b. 20 < body_score E b persona job) (body_text pg))) @
           concat (map (\<lambda>pg.
             map (section_of_heading E doc pg persona job)
               (filter (\<lambda>h. 15 < heading_score E doc pg h persona job) (headings pg)) @
             map (section_of_body_block E doc pg persona job)
               (filter (\<lambda>b. 20 < body_score E b persona job) (body_text pg))) rest))"
    by (rule list_emb_append_mono) (rule Cons.IH)
  then show ?case by (simp add: case_prod_unfold)
qed

lemma subseq_member: "subseq xs ys \<Longrightarrow> x \<in> set xs \<Longrightarrow> x \<in> set ys"
  by (auto elim: list_emb_set)

lemma sections_in_time:
  assumes "\<forall>k. check_time_limit E k"
  shows "fst (extract_relevant_sections_multilingual E doc persona job n)
         = admitted_sections E doc persona job"
  using pages_loop_in_time [OF assms]
  by (simp add: extract_relevant_sections_multilingual_def admitted_sections_def)

lemma sections_subseq:
  "subseq (fst (extract_relevant_sections_multilingual E doc persona job n))
     (admitted_sections E doc persona job)"
  using pages_loop_subseq
  by (simp add: extract_relevant_sections_multilingual_def admitted_sections_def)

text \<open>
  Claim C3, as amended. While the time limit is not exceeded at any check, the
  sections of a document are exactly the admitted ones: a heading gives a section if
  and only if its score is greater than 15, a body block if and only if its score is
  greater than 20. Whether or not the limit is exceeded, the sections returned are a
  subsequence of the admitted ones, so every returned section comes from a heading
  that scores more than 15 or from a body block that scores more than 20; a body block
  that scores exactly 20 is never admitted.
\<close>

theorem admission_thresholds_within_time_limit:
  "((\<forall>k. check_time_limit E k) \<longrightarrow>
      fst (extract_relevant_sections_multilingual E doc persona job n)
      = admitted_sections E doc persona job) \<and>
   subseq (fst (extract_relevant_sections_multilingual E doc persona job n))
     (admitted_sections E doc persona job) \<and>
   (\<forall>x\<in>set (fst (extract_relevant_sections_multilingual E doc persona job n)).
      \<exists>pg\<in>set (pages doc).
        (\<exists>h\<in>set (headings pg).
           15 < heading_score E doc pg h persona job \<and>
           x = section_of_heading E doc pg persona job h) \<or>
        (\<exists>b\<in>set (body_text pg).
           20 < body_score E b persona job \<and>
           x = section_of_body_block E doc pg persona job b))"
proof -
  have "\<exists>pg\<in>set (pages doc).
        (\<exists>h\<in>set (headings pg).
           15 < heading_score E doc pg h persona job \<and>
           x = section_of_heading E doc pg persona job h) \<or>
        (\<exists>b\<in>set (body_text pg).
           20 < body_score E b persona job \<and>
           x = section_of_body_block E doc pg persona job b)"
    if "x \<in> set (fst (extract_relevant_sections_multilingual E doc persona job n))" for x
  proof -
    from subseq_member [OF sections_subseq that]
    have "x \<in> set (admitted_sections E doc persona job)" .
    then show ?thesis
      by (auto simp: admitted_sections_def)
  qed
  with sections_in_time sections_subseq show ?thesis by blast
qed

lemma ten_letters_score:
  assumes "langdetect E = Some (\<lambda>t. Some (u ''en''))"
    and "sentence_model E = Some (\<lambda>t r. Some s)"
    and "sent_tokenize E = (\<lambda>t. [t])"
  shows "calculate_semantic_relevance_multilingual E (Some (tb_text boundary_block))
           (u ''visitor'') (u ''browsing'') = min 100 (max 0 (s * 30 + 3))"
proof -
  have block_text: "tb_text boundary_block = u ''aaaaaaaaaa''"
    by (simp add: boundary_block_def)
  have no_keywords: "get_keywords_for_language (u ''visitor'') (u ''browsing'') lang = []" for lang
    by (simp add: get_keywords_for_language_def PERSONA_KNOWLEDGE_def JOB_PATTERNS_def
        dict_get_def dict_update_def u_def)
  have long: "u ''aaaaaaaaaa'' \<noteq> [] \<and> \<not> length (strip (u ''aaaaaaaaaa'')) < 10"
    by (simp add: strip_def isspace_def u_def)
  have detected: "detect_language E (Some (u ''aaaaaaaaaa'')) = u ''en''"
    using long by (simp add: detect_language_def detect_language_calls_def assms(1))
  have lowered: "lower E (u ''aaaaaaaaaa'') = u ''aaaaaaaaaa''"
    by (simp add: lower_def lower_latin1_def u_def)
  have no_structure: "calculate_structure_score (u ''aaaaaaaaaa'') (u ''en'') = 0"
    by (simp add: calculate_structure_score_def SECTION_KEYWORDS_def dict_get_def u_def)
  have quality: "calculate_quality_score E (u ''aaaaaaaaaa'') (u ''en'') (u ''visitor'') = 3"
    by (simp add: calculate_quality_score_def assms(3) u_def)
  have semantic: "semantic_component E (u ''aaaaaaaaaa'') (u ''visitor'') (u ''browsing'') [] = s * 30"
    by (simp add: semantic_component_def assms(2))
  show ?thesis
    using long
    by (simp add: calculate_semantic_relevance_multilingual_def block_text no_keywords detected
        lowered no_structure quality semantic keyword_component_def)
qed

lemma generous_score:
  "calculate_semantic_relevance_multilingual generous_env (Some (tb_text boundary_block))
     (u ''visitor'') (u ''browsing'') = 33"
  using ten_letters_score [of generous_env 1]
  by (simp add: generous_env_def english_env_def offline_env_def)

lemma late_score:
  "calculate_semantic_relevance_multilingual late_env (Some (tb_text boundary_block))
     (u ''visitor'') (u ''browsing'') = 33"
  using ten_letters_score [of late_env 1]
  by (simp add: late_env_def generous_env_def english_env_def offline_env_def)

lemma exactly_twenty_score:
  "calculate_semantic_relevance_multilingual boundary_env (Some (tb_text boundary_block))
     (u ''visitor'') (u ''browsing'') = 20"
  using ten_letters_score [of boundary_env "17 / 30"]
  by (simp add: boundary_env_def english_env_def offline_env_def)

lemma generous_time: "\<forall>k. check_time_limit generous_env k"
  by (simp add: check_time_limit_def generous_env_def english_env_def offline_env_def)

lemma boundary_time: "\<forall>k. check_time_limit boundary_env k"
  by (simp add: check_time_limit_def boundary_env_def english_env_def offline_env_def)

lemma generous_admitted:
  "admitted_sections generous_env boundary_document (u ''visitor'') (u ''browsing'')
   = [section_of_body_block generous_env boundary_document boundary_page
        (u ''visitor'') (u ''browsing'') boundary_block]"
  by (simp add: admitted_sections_def boundary_document_def boundary_page_def body_score_def
      generous_score)

lemma exactly_twenty_not_admitted:
  "body_score boundary_env boundary_block (u ''visitor'') (u ''browsing'') = 20 \<and>
   fst (extract_relevant_sections_multilingual boundary_env boundary_document
          (u ''visitor'') (u ''browsing'') 0) = []"
proof -
  have "admitted_sections boundary_env boundary_document (u ''visitor'') (u ''browsing'') = []"
    by (simp add: admitted_sections_def boundary_document_def boundary_page_def body_score_def
        exactly_twenty_score)
  then show ?thesis
    by (simp add: body_score_def exactly_twenty_score sections_in_time [OF boundary_time])
qed

theorem admission_thresholds_within_time_limit_witness:
  "(\<forall>k. check_time_limit generous_env k) \<and>
   fst (extract_relevant_sections_multilingual generous_env boundary_document
          (u ''visitor'') (u ''browsing'') 0)
   = [section_of_body_block generous_env boundary_document boundary_page
        (u ''visitor'') (u ''browsing'') boundary_block] \<and>
   20 < body_score generous_env boundary_block (u ''visitor'') (u ''browsing'')"
  using admission_thresholds_within_time_limit [of generous_env boundary_document "u ''visitor''" "u ''browsing''" 0]
    generous_time generous_admitted
  by (simp add: body_score_def generous_score)

text \<open>
  Claim C3 as stated makes a score above the threshold sufficient. Each loop checks
  the time limit before it scores a block and stops when the limit is exceeded: with a
  clock past the limit the body block below scores 33 and the document has no section.
\<close>

theorem admission_after_time_limit_counterexample:
  "body_text boundary_page = [boundary_block] \<and>
   pages boundary_document = [boundary_page] \<and>
   calculate_semantic_relevance_multilingual late_env (Some (tb_text boundary_block))
     (u ''visitor'') (u ''browsing'') = 33 \<and>
   fst (extract_relevant_sections_multilingual late_env boundary_document
          (u ''visitor'') (u ''browsing'') 0) = []"
proof -
  have "check_time_limit late_env k = False" for k
    by (simp add: check_time_limit_def late_env_def generous_env_def english_env_def
        offline_env_def)
  then show ?thesis
    by (simp add: late_score extract_relevant_sections_multilingual_def boundary_document_def
        boundary_page_def)
qed

section \<open>The language of a subsection\<close>

lemma subsection_of_language:
  "subsection_of section refined persona job = Inr subsection \<Longrightarrow> language subsection = None"
  by (auto simp: subsection_of_def item_def empty_dict_def split: option.splits)

lemma create_subsection_language:
  "create_subsection_analysis_advanced E secs persona job n = Inr (subsections, n') \<Longrightarrow>
   list_all (\<lambda>s. language s = None) subsections"
proof (induction secs arbitrary: n subsections n')
  case Nil
  then show ?case by simp
next
  case (Cons sec rest)
  then show ?case
    by (auto simp: Let_def split: if_splits sum.splits dest: subsection_of_language)
qed

lemma documents_loop_language:
  "documents_loop E docs_path files persona job n = Inr (all_sections, all_subsections, langs, n') \<Longrightarrow>
   list_all (\<lambda>s. language s = None) all_subsections"
proof (induction files arbitrary: n all_sections all_subsections langs n')
  case Nil
  then show ?case by simp
next
  case (Cons pdf_file rest)
  then show ?case
    by (auto simp: Let_def split: if_splits sum.splits prod.splits dest: create_subsection_language)
qed

lemma rank_subsections_subset:
  assumes "rank_and_filter_results_advanced secs subs = Inr (top_sections, top_subsections)"
  shows "set top_subsections \<subseteq> set subs"
  using rank_Inr(4) [OF assms] by (auto simp: set_sorted_reverse dest!: in_set_takeD)

lemma subsection_entry_language:
  "subsection_entry E subsection persona job = Inr x \<Longrightarrow>
   language x = Some (get_default (language subsection) (u ''en''))"
  by (auto simp: subsection_entry_def item_def empty_dict_def Let_def split: option.splits)

lemma subsection_entries_language:
  "subsection_entries E subs persona job = Inr xs \<Longrightarrow>
   list_all (\<lambda>s. language s = None) subs \<Longrightarrow>
   list_all (\<lambda>x. language x = Some (u ''en'')) xs"
proof (induction subs arbitrary: xs)
  case Nil
  then show ?case by simp
next
  case (Cons sub rest)
  then show ?case
    by (auto simp: get_default_def split: sum.splits dest!: subsection_entry_language)
qed

text \<open>
  Claim C10. Every entry of \<^verbatim>\<open>subsection_analysis\<close> in the result of a run has the
  language \<^verbatim>\<open>en\<close>, whatever the language of the section it comes from: the dict
  built by \<^verbatim>\<open>create_subsection_analysis_advanced\<close> has no key
  \<^verbatim>\<open>language\<close>, the ranking returns dicts of its input, and the entry of the
  result reads the key with the default \<^verbatim>\<open>en\<close>.
\<close>

theorem subsection_language_is_english:
  "list_all (\<lambda>x. language x = Some (u ''en''))
     (subsection_analysis (process_documents_multilingual E docs_path persona job))"
proof -
  have "list_all (\<lambda>x. language x = Some (u ''en'')) out"
    if loop: "documents_loop E docs_path files persona job 0 = Inr (all_sections, all_subsections, langs, n)"
      and rank: "rank_and_filter_results_advanced all_sections all_subsections = Inr (top_sections, top_subsections)"
      and entries: "subsection_entries E top_subsections persona job = Inr out"
    for files all_sections all_subsections langs n top_sections top_subsections out
  proof -
    have "list_all (\<lambda>s. language s = None) all_subsections"
      using loop by (rule documents_loop_language)
    then have "list_all (\<lambda>s. language s = None) top_subsections"
      using rank_subsections_subset [OF rank] by (auto simp: list_all_iff)
    with entries show ?thesis by (rule subsection_entries_language)
  qed
  then show ?thesis
    by (auto simp: process_documents_multilingual_def create_empty_result_def Let_def
        split: sum.splits prod.splits)
qed

end
